theory Spec2Isabelle
  imports Main "HOL-Library.Word"
begin

section \<open>Time, durations and the client record\<close>

text \<open>
  An instant (Go's \<open>time.Time\<close>) is the number of nanoseconds since the zero Time
  (January 1, year 1, 00:00:00 UTC), so \<open>IsZero\<close> is equality with 0. A
  \<open>time.Duration\<close> is a signed 64-bit count of nanoseconds: the product
  \<open>time.Duration(n) * time.Second\<close> is an \<open>int64\<close> multiplication and wraps
  around silently, which \<open>wrap64\<close> writes out.
\<close>

type_synonym Time = int
type_synonym Duration = int

definition wrap64 :: "int \<Rightarrow> int" where
  "wrap64 x = (x + 2 ^ 63) mod 2 ^ 64 - 2 ^ 63"

definition Second :: Duration where
  "Second = 1000000000"

definition Hour :: Duration where
  "Hour = 3600 * Second"

definition Duration_mul :: "int \<Rightarrow> Duration \<Rightarrow> Duration" where
  "Duration_mul n d = wrap64 (n * d)"

definition Time_Add :: "Time \<Rightarrow> Duration \<Rightarrow> Time" where
  "Time_Add t d = t + d"

definition Time_Before :: "Time \<Rightarrow> Time \<Rightarrow> bool" where
  "Time_Before t u = (t < u)"

definition Time_After :: "Time \<Rightarrow> Time \<Rightarrow> bool" where
  "Time_After t u = (u < t)"

definition IsZero :: "Time \<Rightarrow> bool" where
  "IsZero t = (t = 0)"

text \<open>The token-related fields of \<open>Client\<close> (the two HTTP clients carry no state
  that the functions below read).\<close>

record Client =
  clientID :: string
  clientSecret :: string
  accessToken :: string
  refreshToken :: string
  expiresIn :: int
  uid :: string
  tokenFile :: string
  tokenCreatedAt :: Time

section \<open>IsTokenExpired\<close>

text \<open>
  \<open>IsTokenExpired\<close> reads the clock for \<open>twoDaysBefore\<close> and for the comparison
  with the deadline; both readings are the one instant \<open>now\<close>.
\<close>

definition IsTokenExpired :: "'a Client_scheme \<Rightarrow> Time \<Rightarrow> bool" where
  "IsTokenExpired c now =
     (if IsZero (tokenCreatedAt c) \<or> expiresIn c = 0 then True
      else
        let expirationTime = Time_Add (tokenCreatedAt c) (Duration_mul (expiresIn c) Second);
            twoDaysBefore = Time_Add now (Duration_mul 48 Hour)
        in Time_Before expirationTime now \<or> Time_Before expirationTime twoDaysBefore)"

section \<open>Errors, panics and HTTP exchanges\<close>

text \<open>
  Go errors are values of \<open>error\<close>, one constructor for each kind of \<open>fmt.Errorf\<close>
  of the package (the comment gives the message). A function returning \<open>error\<close>
  returns \<open>error option\<close> (\<open>None\<close> is \<open>nil\<close>); a function returning a value and
  an error returns a sum. A run-time panic (an index out of range) is the outcome
  \<open>Panics\<close>.
\<close>

datatype error =
    NoAccessToken                        \<comment> \<open>no access token, please authorize first\<close>
  | NoFilesSpecified                     \<comment> \<open>no files specified for ... operation\<close>
  | RequestFailed                        \<comment> \<open>the error of \<open>client.Do\<close>\<close>
  | ReadBodyFailed                       \<comment> \<open>the error of \<open>io.ReadAll\<close>\<close>
  | StatusError int string               \<comment> \<open>... failed with status %d: %s\<close>
  | UnmarshalError                       \<comment> \<open>the error of \<open>json.Unmarshal\<close>\<close>
  | ApiErrno int                         \<comment> \<open>... API returned error code %d\<close>
  | PartialFailure "string list"         \<comment> \<open>failed to ... some files: the entries, joined\<close>
  | DeviceCodeExpired                    \<comment> \<open>device code has expired\<close>
  | NoRefreshToken                       \<comment> \<open>no refresh token available\<close>
  | EmptyAccessToken                     \<comment> \<open>refresh returned empty access token\<close>
  | NoAccessTokenToSave                  \<comment> \<open>no access token to save\<close>
  | WriteFileError                       \<comment> \<open>the error of \<open>os.WriteFile\<close>\<close>
  | OpenError                            \<comment> \<open>failed to open file\<close>
  | ReadError                            \<comment> \<open>failed to read file slice\<close>
  | StatError                            \<comment> \<open>failed to get local file info\<close>
  | IsDirectory                          \<comment> \<open>cannot upload directory\<close>
  | InvalidRemotePath                    \<comment> \<open>an error of \<open>ensureRemoteDirExists\<close>\<close>
  | NoUploadID                           \<comment> \<open>precreate API did not return uploadid\<close>

datatype 'a go = Panics | Returns 'a

text \<open>What \<open>client.Do\<close> followed by \<open>io.ReadAll\<close> yields: a failure of either, or
  the status code and the body.\<close>

datatype http_reply = DoError | ReadAllError | Reply int string

definition StatusOK :: int where
  "StatusOK = 200"

definition StatusBadRequest :: int where
  "StatusBadRequest = 400"

text \<open>The verb \<open>%d\<close> of \<open>fmt\<close>: an integer in decimal digits, with a minus sign
  when it is negative.\<close>

definition digit_char :: "nat \<Rightarrow> char" where
  "digit_char d = ''0123456789'' ! d"

fun decimal :: "nat \<Rightarrow> string" where
  "decimal n = (if 10 \<le> n then decimal (n div 10) @ [digit_char (n mod 10)] else [digit_char n])"

definition fmt_d :: "int \<Rightarrow> string" where
  "fmt_d i = (if 0 \<le> i then decimal (nat i) else CHR ''-'' # decimal (nat (- i)))"

text \<open>Indexing a slice: \<open>None\<close> where Go panics with index out of range.\<close>

definition index :: "'a list \<Rightarrow> nat \<Rightarrow> 'a option" where
  "index xs i = (if i < length xs then Some (xs ! i) else None)"

section \<open>Device-code polling\<close>

record DeviceCodeResponse =
  DeviceCode :: string
  UserCode :: string
  VerificationURL :: string
  dc_ExpiresIn :: int
  Interval :: int
  QRCode :: string

record TokenResponse =
  tr_AccessToken :: string
  tr_RefreshToken :: string
  tr_ExpiresIn :: int
  tr_Scope :: string
  tr_SessionKey :: string
  tr_SessionSecret :: string
  tr_UID :: string

definition empty_TokenResponse :: TokenResponse where
  "empty_TokenResponse =
     \<lparr>tr_AccessToken = [], tr_RefreshToken = [], tr_ExpiresIn = 0, tr_Scope = [],
      tr_SessionKey = [], tr_SessionSecret = [], tr_UID = []\<rparr>"

text \<open>
  \<open>requestToken\<close>, as a function of what the token endpoint answers. The two JSON
  decodings of the body are parameters: \<open>unmarshal_error\<close> gives the \<open>error\<close> field
  read into \<open>errorResp\<close> (empty when absent; the error of that \<open>Unmarshal\<close> is
  dropped by the code), \<open>unmarshal_token\<close> the \<open>TokenResponse\<close> (\<open>None\<close> when
  \<open>Unmarshal\<close> fails).
\<close>

definition requestToken ::
  "(string \<Rightarrow> string) \<Rightarrow> (string \<Rightarrow> TokenResponse option) \<Rightarrow> http_reply
     \<Rightarrow> error + TokenResponse" where
  "requestToken unmarshal_error unmarshal_token r =
     (case r of
        DoError \<Rightarrow> Inl RequestFailed
      | ReadAllError \<Rightarrow> Inl ReadBodyFailed
      | Reply status body \<Rightarrow>
          if status \<noteq> StatusOK then
            (if status = StatusBadRequest
                \<and> (unmarshal_error body = ''authorization_pending''
                     \<or> unmarshal_error body = ''slow_down'')
             then Inr empty_TokenResponse
             else Inl (StatusError status body))
          else
            (case unmarshal_token body of
               None \<Rightarrow> Inl UnmarshalError
             | Some tokenResp \<Rightarrow> Inr tokenResp))"

text \<open>\<open>GetDeviceCodeForPoll\<close> makes no request: it returns the defaults.\<close>

definition GetDeviceCodeForPoll :: "string \<Rightarrow> error + DeviceCodeResponse" where
  "GetDeviceCodeForPoll deviceCode =
     Inr \<lparr>DeviceCode = deviceCode, UserCode = [], VerificationURL = [],
          dc_ExpiresIn = 1800, Interval = 5, QRCode = []\<rparr>"

text \<open>
  The world the poll loop runs in: the answer of the token endpoint to the \<open>k\<close>-th
  request, the time that request takes, and the two decoders. The loop carries the
  clock and the number of requests sent so far. \<open>time.Sleep\<close> returns at once for a
  duration that is not positive. The loop may run forever (an endpoint that answers
  at once and an interval that is not positive), so it returns an option.
\<close>

record poll_env =
  replies :: "nat \<Rightarrow> http_reply"
  latency :: "nat \<Rightarrow> Duration"
  unmarshal_error :: "string \<Rightarrow> string"
  unmarshal_token :: "string \<Rightarrow> TokenResponse option"

record poll_result =
  returned :: "error + TokenResponse"
  client :: Client
  finished_at :: Time
  requests :: nat

definition Sleep :: "Time \<Rightarrow> Duration \<Rightarrow> Time" where
  "Sleep now d = (if d \<le> 0 then now else now + d)"

partial_function (option) poll_loop ::
  "poll_env \<Rightarrow> int \<Rightarrow> Time \<Rightarrow> Client \<Rightarrow> Time \<Rightarrow> nat \<Rightarrow> poll_result option" where
  "poll_loop env interval timeout c now k =
     (if Time_After now timeout then
        Some \<lparr>returned = Inl DeviceCodeExpired, client = c, finished_at = now, requests = k\<rparr>
      else
        let now' = now + latency env k in
        case requestToken (unmarshal_error env) (unmarshal_token env) (replies env k) of
          Inl err \<Rightarrow>
            Some \<lparr>returned = Inl err, client = c, finished_at = now', requests = Suc k\<rparr>
        | Inr tokenResp \<Rightarrow>
            if tr_AccessToken tokenResp \<noteq> [] then
              Some \<lparr>returned = Inr tokenResp,
                    client = c\<lparr>accessToken := tr_AccessToken tokenResp,
                                refreshToken := tr_RefreshToken tokenResp,
                                expiresIn := tr_ExpiresIn tokenResp,
                                uid := tr_UID tokenResp\<rparr>,
                    finished_at = now', requests = Suc k\<rparr>
            else
              poll_loop env interval timeout c
                (Sleep now' (Duration_mul interval Second)) (Suc k))"

definition PollForToken ::
  "poll_env \<Rightarrow> Client \<Rightarrow> string \<Rightarrow> Time \<Rightarrow> poll_result option" where
  "PollForToken env c deviceCode now =
     (case GetDeviceCodeForPoll deviceCode of
        Inl err \<Rightarrow>
          Some \<lparr>returned = Inl err, client = c, finished_at = now, requests = 0\<rparr>
      | Inr initialResp \<Rightarrow>
          let interval = (if Interval initialResp = 0 then 5 else Interval initialResp);
              timeout = Time_Add now (Duration_mul (dc_ExpiresIn initialResp) Second)
          in poll_loop env interval timeout c now 0)"

text \<open>The call that \<open>performDeviceCodeAuth\<close> makes for the session it was given by
  \<open>GetDeviceCode\<close>: only the device code of the session is passed on.\<close>

definition performDeviceCodeAuth_poll ::
  "poll_env \<Rightarrow> Client \<Rightarrow> DeviceCodeResponse \<Rightarrow> Time \<Rightarrow> poll_result option" where
  "performDeviceCodeAuth_poll env c deviceResp now =
     PollForToken env c (DeviceCode deviceResp) now"

section \<open>Saving and refreshing tokens\<close>






text \<open>Sample bodies of the token endpoint and sample decoders, for the concrete
  runs below.\<close>

definition pending_body :: string where
  \<open>pending_body = ''{"error":"authorization_pending"}''\<close>

definition token_body :: string where
  \<open>token_body = ''{"access_token":"A2","refresh_token":"R2","expires_in":2592000}''\<close>

definition sample_unmarshal_error :: "string \<Rightarrow> string" where
  "sample_unmarshal_error body = (if body = pending_body then ''authorization_pending'' else [])"

definition sample_unmarshal_token :: "string \<Rightarrow> TokenResponse option" where
  "sample_unmarshal_token body =
     (if body = token_body
      then Some \<lparr>tr_AccessToken = ''A2'', tr_RefreshToken = ''R2'', tr_ExpiresIn = 2592000,
                 tr_Scope = [], tr_SessionKey = [], tr_SessionSecret = [], tr_UID = []\<rparr>
      else if body = pending_body then Some empty_TokenResponse
      else None)"

definition sample_client :: Client where
  "sample_client =
     \<lparr>clientID = ''id'', clientSecret = ''secret'', accessToken = ''A1'',
      refreshToken = ''R1'', expiresIn = 2592000, uid = ''u'', tokenFile = ''.bdfs_certs'',
      tokenCreatedAt = 63900000000000000000\<rparr>"

definition always_pending :: poll_env where
  "always_pending =
     \<lparr>replies = (\<lambda>k. Reply 400 pending_body), latency = (\<lambda>k. 0),
      unmarshal_error = sample_unmarshal_error, unmarshal_token = sample_unmarshal_token\<rparr>"

definition advertised_session :: DeviceCodeResponse where
  "advertised_session =
     \<lparr>DeviceCode = ''dc'', UserCode = ''uc'', VerificationURL = ''https://example/device'',
      dc_ExpiresIn = 10, Interval = 5, QRCode = []\<rparr>"



text \<open>The number of requests a poll loop sends from \<open>now\<close> on when it sleeps \<open>d\<close>
  between requests that are all answered at once with "keep polling".\<close>

definition polls_until :: "Duration \<Rightarrow> Time \<Rightarrow> Time \<Rightarrow> nat" where
  "polls_until d timeout now = (if timeout < now then 0 else nat ((timeout - now) div d) + 1)"

section \<open>Slice hashes\<close>

text \<open>
  A local file is its bytes, and the local file system maps a path to the file there
  (\<open>os.Open\<close> fails on a path outside its domain). \<open>file_Read\<close> is \<open>Read\<close> on an
  open regular file, given the bytes not yet read and the length of the buffer: it
  fills the buffer as far as bytes remain, and reports \<open>io.EOF\<close> with no bytes once
  none remain. The digest \<open>md5hex\<close> (\<open>crypto/md5\<close> printed with \<open>%x\<close>) is a
  parameter.
\<close>

type_synonym byte = "8 word"


datatype io_error = EOF | IOFault








section \<open>Batch operations\<close>

record MoveInfo =
  mi_Path :: string
  mi_Dest :: string
  mi_NewName :: string
  mi_Errno :: int

record MoveRequest =
  mr_Path :: string
  mr_Dest :: string
  mr_NewName :: string

record MoveResponse =
  move_Errno :: int
  move_Info :: "MoveInfo list"
  move_TaskID :: int
  move_RequestID :: int

record CopyInfo =
  ci_Path :: string
  ci_Dest :: string
  ci_NewName :: string
  ci_Errno :: int

record CopyRequest =
  cr_Path :: string
  cr_Dest :: string
  cr_NewName :: string

record CopyResponse =
  copy_Errno :: int
  copy_Info :: "CopyInfo list"
  copy_TaskID :: int
  copy_RequestID :: int

record RenameInfo =
  ri_Path :: string
  ri_Errno :: int

record RenameRequest =
  rr_Path :: string
  rr_NewName :: string

record RenameResponse =
  rename_Errno :: int
  rename_Info :: "RenameInfo list"
  rename_TaskID :: int
  rename_RequestID :: int

record DeleteEntry =
  de_Path :: string
  de_Errno :: int

record DeleteResponse =
  delete_Errno :: int
  delete_RequestID :: int
  delete_List :: "DeleteEntry list"

text \<open>The entries of the failure lists, as \<open>fmt.Sprintf\<close> builds them.\<close>

definition move_entry :: "MoveRequest \<Rightarrow> int \<Rightarrow> string" where
  "move_entry req errno =
     mr_Path req @ '' -> '' @ mr_Dest req @ ''/'' @ mr_NewName req
       @ '' (error code: '' @ fmt_d errno @ '')''"

definition copy_entry :: "CopyRequest \<Rightarrow> int \<Rightarrow> string" where
  "copy_entry req errno =
     cr_Path req @ '' -> '' @ cr_Dest req @ ''/'' @ cr_NewName req
       @ '' (error code: '' @ fmt_d errno @ '')''"

definition rename_entry :: "RenameRequest \<Rightarrow> int \<Rightarrow> string" where
  "rename_entry req errno =
     rr_Path req @ '' -> '' @ rr_NewName req
       @ '' (error code: '' @ fmt_d errno @ '')''"

definition delete_entry :: "DeleteEntry \<Rightarrow> string" where
  "delete_entry entry =
     de_Path entry @ '' (error code: '' @ fmt_d (de_Errno entry) @ '')''"

definition copy_success :: "CopyRequest \<Rightarrow> string" where
  "copy_success req =
     ''File '' @ [CHR 0x27] @ cr_Path req @ [CHR 0x27] @ '' copied successfully to ''
       @ [CHR 0x27] @ cr_Dest req @ ''/'' @ cr_NewName req @ [CHR 0x27]"

text \<open>
  The loops over the \<open>Info\<close> array of a response: \<open>i\<close> is the position of the entry
  at the head of the list, and the request list is indexed by it.
\<close>

fun failedMoves_loop ::
  "MoveRequest list \<Rightarrow> nat \<Rightarrow> MoveInfo list \<Rightarrow> string list \<Rightarrow> string list go" where
  "failedMoves_loop moveRequests i [] failedMoves = Returns failedMoves"
| "failedMoves_loop moveRequests i (moveInfo # rest) failedMoves =
     (if mi_Errno moveInfo \<noteq> 0 then
        (case index moveRequests i of
           None \<Rightarrow> Panics
         | Some req \<Rightarrow>
             failedMoves_loop moveRequests (Suc i) rest
               (failedMoves @ [move_entry req (mi_Errno moveInfo)]))
      else failedMoves_loop moveRequests (Suc i) rest failedMoves)"

fun failedCopies_loop ::
  "CopyRequest list \<Rightarrow> nat \<Rightarrow> CopyInfo list \<Rightarrow> string list \<Rightarrow> string list go" where
  "failedCopies_loop copyRequests i [] failedCopies = Returns failedCopies"
| "failedCopies_loop copyRequests i (copyInfo # rest) failedCopies =
     (if ci_Errno copyInfo \<noteq> 0 then
        (case index copyRequests i of
           None \<Rightarrow> Panics
         | Some req \<Rightarrow>
             failedCopies_loop copyRequests (Suc i) rest
               (failedCopies @ [copy_entry req (ci_Errno copyInfo)]))
      else failedCopies_loop copyRequests (Suc i) rest failedCopies)"

fun copied_loop ::
  "CopyRequest list \<Rightarrow> nat \<Rightarrow> CopyInfo list \<Rightarrow> string list \<Rightarrow> string list go" where
  "copied_loop copyRequests i [] printed = Returns printed"
| "copied_loop copyRequests i (copyInfo # rest) printed =
     (case index copyRequests i of
        None \<Rightarrow> Panics
      | Some req \<Rightarrow> copied_loop copyRequests (Suc i) rest (printed @ [copy_success req]))"

fun failedRenames_loop ::
  "RenameRequest list \<Rightarrow> nat \<Rightarrow> RenameInfo list \<Rightarrow> string list \<Rightarrow> string list go" where
  "failedRenames_loop renameRequests i [] failedRenames = Returns failedRenames"
| "failedRenames_loop renameRequests i (renameInfo # rest) failedRenames =
     (if ri_Errno renameInfo \<noteq> 0 then
        (case index renameRequests i of
           None \<Rightarrow> Panics
         | Some req \<Rightarrow>
             failedRenames_loop renameRequests (Suc i) rest
               (failedRenames @ [rename_entry req (ri_Errno renameInfo)]))
      else failedRenames_loop renameRequests (Suc i) rest failedRenames)"

fun failedFiles_loop :: "DeleteEntry list \<Rightarrow> string list \<Rightarrow> string list" where
  "failedFiles_loop [] failedFiles = failedFiles"
| "failedFiles_loop (entry # rest) failedFiles =
     (if de_Errno entry \<noteq> 0 then failedFiles_loop rest (failedFiles @ [delete_entry entry])
      else failedFiles_loop rest failedFiles)"

text \<open>
  The operations, as functions of the client, the request list and what the server
  answers to the one request they send; the decoder of the response body is a
  parameter (\<open>None\<close> when \<open>json.Unmarshal\<close> fails).
\<close>

definition MoveFiles ::
  "(string \<Rightarrow> MoveResponse option) \<Rightarrow> http_reply \<Rightarrow> Client \<Rightarrow> MoveRequest list
     \<Rightarrow> error option go" where
  "MoveFiles unmarshal r c moveRequests =
     (if accessToken c = [] then Returns (Some NoAccessToken)
      else if length moveRequests = 0 then Returns (Some NoFilesSpecified)
      else
        case r of
          DoError \<Rightarrow> Returns (Some RequestFailed)
        | ReadAllError \<Rightarrow> Returns (Some ReadBodyFailed)
        | Reply status responseBody \<Rightarrow>
            if status \<noteq> StatusOK then Returns (Some (StatusError status responseBody))
            else
              (case unmarshal responseBody of
                 None \<Rightarrow> Returns (Some UnmarshalError)
               | Some moveResponse \<Rightarrow>
                   if move_Errno moveResponse \<noteq> 0
                   then Returns (Some (ApiErrno (move_Errno moveResponse)))
                   else
                     (case failedMoves_loop moveRequests 0 (move_Info moveResponse) [] of
                        Panics \<Rightarrow> Panics
                      | Returns failedMoves \<Rightarrow>
                          if length failedMoves > 0
                          then Returns (Some (PartialFailure failedMoves))
                          else Returns None)))"

text \<open>\<open>CopyFiles\<close> also prints a line for every entry of \<open>Info\<close> before it returns
  \<open>nil\<close>; the lines are returned with the result.\<close>

definition CopyFiles ::
  "(string \<Rightarrow> CopyResponse option) \<Rightarrow> http_reply \<Rightarrow> Client \<Rightarrow> CopyRequest list
     \<Rightarrow> (error option \<times> string list) go" where
  "CopyFiles unmarshal r c copyRequests =
     (if accessToken c = [] then Returns (Some NoAccessToken, [])
      else if length copyRequests = 0 then Returns (Some NoFilesSpecified, [])
      else
        case r of
          DoError \<Rightarrow> Returns (Some RequestFailed, [])
        | ReadAllError \<Rightarrow> Returns (Some ReadBodyFailed, [])
        | Reply status responseBody \<Rightarrow>
            if status \<noteq> StatusOK then Returns (Some (StatusError status responseBody), [])
            else
              (case unmarshal responseBody of
                 None \<Rightarrow> Returns (Some UnmarshalError, [])
               | Some copyResponse \<Rightarrow>
                   if copy_Errno copyResponse \<noteq> 0
                   then Returns (Some (ApiErrno (copy_Errno copyResponse)), [])
                   else
                     (case failedCopies_loop copyRequests 0 (copy_Info copyResponse) [] of
                        Panics \<Rightarrow> Panics
                      | Returns failedCopies \<Rightarrow>
                          if length failedCopies > 0
                          then Returns (Some (PartialFailure failedCopies), [])
                          else
                            (case copied_loop copyRequests 0 (copy_Info copyResponse) [] of
                               Panics \<Rightarrow> Panics
                             | Returns printed \<Rightarrow> Returns (None, printed)))))"

definition RenameFiles ::
  "(string \<Rightarrow> RenameResponse option) \<Rightarrow> http_reply \<Rightarrow> Client \<Rightarrow> RenameRequest list
     \<Rightarrow> error option go" where
  "RenameFiles unmarshal r c renameRequests =
     (if accessToken c = [] then Returns (Some NoAccessToken)
      else if length renameRequests = 0 then Returns (Some NoFilesSpecified)
      else
        case r of
          DoError \<Rightarrow> Returns (Some RequestFailed)
        | ReadAllError \<Rightarrow> Returns (Some ReadBodyFailed)
        | Reply status responseBody \<Rightarrow>
            if status \<noteq> StatusOK then Returns (Some (StatusError status responseBody))
            else
              (case unmarshal responseBody of
                 None \<Rightarrow> Returns (Some UnmarshalError)
               | Some renameResponse \<Rightarrow>
                   if rename_Errno renameResponse \<noteq> 0
                   then Returns (Some (ApiErrno (rename_Errno renameResponse)))
                   else
                     (case failedRenames_loop renameRequests 0 (rename_Info renameResponse) [] of
                        Panics \<Rightarrow> Panics
                      | Returns failedRenames \<Rightarrow>
                          if length failedRenames > 0
                          then Returns (Some (PartialFailure failedRenames))
                          else Returns None)))"

text \<open>
  \<open>RemoveFiles\<close> builds the \<open>filelist\<close> form field itself. \<open>fileListJSON_loop\<close> is
  the loop over the paths (\<open>i\<close> is the position of the path at the head of the list),
  \<open>fileListJSON\<close> the finished field. The server answers to the field it is sent.
\<close>

fun fileListJSON_loop :: "nat \<Rightarrow> string list \<Rightarrow> string \<Rightarrow> string" where
  "fileListJSON_loop i [] acc = acc"
| "fileListJSON_loop i (path # rest) acc =
     fileListJSON_loop (Suc i) rest
       ((if i > 0 then acc @ '','' else acc) @ [CHR 0x22] @ path @ [CHR 0x22])"

definition fileListJSON :: "string list \<Rightarrow> string" where
  "fileListJSON filePaths = fileListJSON_loop 0 filePaths ''['' @ '']''"

definition RemoveFiles ::
  "(string \<Rightarrow> DeleteResponse option) \<Rightarrow> (string \<Rightarrow> http_reply) \<Rightarrow> Client \<Rightarrow> string list
     \<Rightarrow> error option" where
  "RemoveFiles unmarshal server c filePaths =
     (if accessToken c = [] then Some NoAccessToken
      else if length filePaths = 0 then Some NoFilesSpecified
      else
        case server (fileListJSON filePaths) of
          DoError \<Rightarrow> Some RequestFailed
        | ReadAllError \<Rightarrow> Some ReadBodyFailed
        | Reply status responseBody \<Rightarrow>
            if status \<noteq> StatusOK then Some (StatusError status responseBody)
            else
              (case unmarshal responseBody of
                 None \<Rightarrow> Some UnmarshalError
               | Some deleteResponse \<Rightarrow>
                   if delete_Errno deleteResponse \<noteq> 0
                   then Some (ApiErrno (delete_Errno deleteResponse))
                   else
                     let failedFiles = failedFiles_loop (delete_List deleteResponse) []
                     in if length failedFiles > 0 then Some (PartialFailure failedFiles)
                        else None))"

text \<open>
  The JSON text of an array of strings (RFC 8259): a string is written between
  quotation marks, with the quotation mark, the reverse solidus and the control
  characters (U+0000 to U+001F) escaped and every other character as it is; the
  elements of an array are separated by commas, with no white space.
\<close>

definition hex_digit :: "nat \<Rightarrow> char" where
  "hex_digit n = ''0123456789abcdef'' ! n"

definition json_escape :: "char \<Rightarrow> string" where
  "json_escape ch =
     (if ch = CHR 0x22 then [CHR 0x5C, CHR 0x22]
      else if ch = CHR 0x5C then [CHR 0x5C, CHR 0x5C]
      else if (of_char ch :: nat) < 32
        then [CHR 0x5C, CHR ''u'', CHR ''0'', CHR ''0'',
              hex_digit (of_char ch div 16), hex_digit (of_char ch mod 16)]
      else [ch])"

definition json_string :: "string \<Rightarrow> string" where
  "json_string s = [CHR 0x22] @ concat (map json_escape s) @ [CHR 0x22]"

fun join :: "string \<Rightarrow> string list \<Rightarrow> string" where
  "join sep [] = []"
| "join sep [x] = x"
| "join sep (x # y # ys) = x @ sep @ join sep (y # ys)"

definition json_array :: "string list \<Rightarrow> string" where
  "json_array xs = ''['' @ join '','' (map json_string xs) @ '']''"

text \<open>The response an operation parses out of a reply: the decoding of the body of
  a reply with status 200.\<close>

definition decoded :: "(string \<Rightarrow> 'r option) \<Rightarrow> http_reply \<Rightarrow> 'r option" where
  "decoded unmarshal r =
     (case r of
        Reply status body \<Rightarrow> if status = StatusOK then unmarshal body else None
      | _ \<Rightarrow> None)"

text \<open>
  What the aggregation of a batch operation is to report: the entries of the items
  whose per-item \<open>errno\<close> is not zero, in the order of the response (each request
  paired with the result at its position), as one error; no error when there is none.
\<close>

definition failed_moves :: "MoveRequest list \<Rightarrow> MoveInfo list \<Rightarrow> string list" where
  "failed_moves reqs infos =
     map (\<lambda>(req, info). move_entry req (mi_Errno info))
       (filter (\<lambda>(req, info). mi_Errno info \<noteq> 0) (zip reqs infos))"

definition failed_copies :: "CopyRequest list \<Rightarrow> CopyInfo list \<Rightarrow> string list" where
  "failed_copies reqs infos =
     map (\<lambda>(req, info). copy_entry req (ci_Errno info))
       (filter (\<lambda>(req, info). ci_Errno info \<noteq> 0) (zip reqs infos))"

definition failed_renames :: "RenameRequest list \<Rightarrow> RenameInfo list \<Rightarrow> string list" where
  "failed_renames reqs infos =
     map (\<lambda>(req, info). rename_entry req (ri_Errno info))
       (filter (\<lambda>(req, info). ri_Errno info \<noteq> 0) (zip reqs infos))"

definition failed_deletes :: "DeleteEntry list \<Rightarrow> string list" where
  "failed_deletes entries = map delete_entry (filter (\<lambda>entry. de_Errno entry \<noteq> 0) entries)"

definition reported :: "string list \<Rightarrow> error option" where
  "reported failed = (if failed = [] then None else Some (PartialFailure failed))"

text \<open>Sample requests, responses and decoders of the batch operations, for the
  concrete runs below.\<close>

definition three_renames :: "RenameRequest list" where
  "three_renames =
     [\<lparr>rr_Path = ''/docs/a.txt'', rr_NewName = ''a1.txt''\<rparr>,
      \<lparr>rr_Path = ''/docs/b.txt'', rr_NewName = ''b1.txt''\<rparr>,
      \<lparr>rr_Path = ''/docs/c.txt'', rr_NewName = ''c1.txt''\<rparr>]"

definition second_failed :: RenameResponse where
  "second_failed =
     \<lparr>rename_Errno = 0,
      rename_Info = [\<lparr>ri_Path = ''/docs/a.txt'', ri_Errno = 0\<rparr>,
                     \<lparr>ri_Path = ''/docs/b.txt'', ri_Errno = - 9\<rparr>,
                     \<lparr>ri_Path = ''/docs/c.txt'', ri_Errno = 0\<rparr>],
      rename_TaskID = 0, rename_RequestID = 1\<rparr>"

definition sample_unmarshal_rename :: "string \<Rightarrow> RenameResponse option" where
  "sample_unmarshal_rename body = (if body = ''second failed'' then Some second_failed else None)"

definition one_copy :: "CopyRequest list" where
  "one_copy = [\<lparr>cr_Path = ''/docs/a.txt'', cr_Dest = ''/backup'', cr_NewName = ''a.txt''\<rparr>]"

definition two_copied :: CopyResponse where
  "two_copied =
     \<lparr>copy_Errno = 0,
      copy_Info = [\<lparr>ci_Path = ''/docs/a.txt'', ci_Dest = ''/backup'', ci_NewName = ''a.txt'',
                    ci_Errno = 0\<rparr>,
                   \<lparr>ci_Path = ''/docs/b.txt'', ci_Dest = ''/backup'', ci_NewName = ''b.txt'',
                    ci_Errno = 0\<rparr>],
      copy_TaskID = 0, copy_RequestID = 1\<rparr>"

definition sample_unmarshal_copy :: "string \<Rightarrow> CopyResponse option" where
  "sample_unmarshal_copy body = (if body = ''two copied'' then Some two_copied else None)"

definition one_move :: "MoveRequest list" where
  "one_move = [\<lparr>mr_Path = ''/docs/a.txt'', mr_Dest = ''/backup'', mr_NewName = ''a.txt''\<rparr>]"

definition one_moved :: MoveResponse where
  "one_moved =
     \<lparr>move_Errno = 0,
      move_Info = [\<lparr>mi_Path = ''/docs/a.txt'', mi_Dest = ''/backup'', mi_NewName = ''a.txt'',
                    mi_Errno = 0\<rparr>],
      move_TaskID = 0, move_RequestID = 1\<rparr>"

definition stray_failure :: MoveResponse where
  "stray_failure =
     \<lparr>move_Errno = 0,
      move_Info = [\<lparr>mi_Path = ''/docs/a.txt'', mi_Dest = ''/backup'', mi_NewName = ''a.txt'',
                    mi_Errno = 0\<rparr>,
                   \<lparr>mi_Path = ''/docs/b.txt'', mi_Dest = ''/backup'', mi_NewName = ''b.txt'',
                    mi_Errno = - 9\<rparr>],
      move_TaskID = 0, move_RequestID = 1\<rparr>"

definition sample_unmarshal_move :: "string \<Rightarrow> MoveResponse option" where
  "sample_unmarshal_move body =
     (if body = ''one moved'' then Some one_moved
      else if body = ''stray failure'' then Some stray_failure
      else None)"

definition tab_path :: string where
  "tab_path = ''/a'' @ [CHR 0x09] @ ''b''"

section \<open>Upload\<close>

record FileStat =
  st_IsDir :: bool
  st_Size :: int
  st_Name :: string

record PrecreateResponse =
  pc_Errno :: int
  pc_UploadID :: string
  pc_BlockList :: "int list"
  pc_RequestID :: int
  pc_ReturnType :: int

record CreateFileResponse =
  cf_Errno :: int
  cf_FsID :: int
  cf_Path :: string
  cf_MD5 :: string
  cf_Size :: int

text \<open>
  The requests of an upload: precreate (path, size, block list), the transfer of one
  slice (path, upload id, sequence number, bytes) and create (path, size, upload id,
  block list).
\<close>

datatype request =
    PrecreateRequest string int "string list"
  | SliceUploadRequest string string nat "byte list"
  | CreateFileRequest string int string "string list"

text \<open>
  The world of an upload. \<open>ensureRemoteDirExists\<close> and \<open>calculateSliceMD5\<close> are
  called by \<open>UploadFile\<close> and defined in no file of the package at hand: they are
  taken as they come, like \<open>os.Stat\<close> (\<open>None\<close> when it fails), \<open>filepath.Dir\<close>,
  \<open>os.Open\<close> (the bytes of the file, \<open>None\<close> when it fails), the server and the two
  decoders. On an open regular file \<open>Seek\<close> to an offset succeeds and \<open>io.ReadFull\<close>
  fills the buffer as far as bytes remain; the two errors it reports for a short
  read are the ones the code lets pass.
\<close>

record upload_env =
  os_Stat :: "string \<Rightarrow> FileStat option"
  filepath_Dir :: "string \<Rightarrow> string"
  ensureRemoteDirExists :: "string \<Rightarrow> error option"
  calculateSliceMD5 :: "string \<Rightarrow> int \<Rightarrow> error + string list"
  os_Open :: "string \<Rightarrow> byte list option"
  server :: "request \<Rightarrow> http_reply"
  unmarshal_precreate :: "string \<Rightarrow> PrecreateResponse option"
  unmarshal_create :: "string \<Rightarrow> CreateFileResponse option"

definition sliceSize :: nat where
  "sliceSize = 4 * 1024 * 1024"

text \<open>The slice loop, over the sequence numbers still to send; \<open>sent\<close> is the list
  of the requests issued so far.\<close>

fun upload_slices ::
  "upload_env \<Rightarrow> string \<Rightarrow> string \<Rightarrow> byte list \<Rightarrow> nat list \<Rightarrow> request list
     \<Rightarrow> error option \<times> request list" where
  "upload_slices env remoteFilePath uploadID file [] sent = (None, sent)"
| "upload_slices env remoteFilePath uploadID file (i # rest) sent =
     (let offset = i * sliceSize;
          currentSlice = take sliceSize (drop offset file);
          sliceUploadReq = SliceUploadRequest remoteFilePath uploadID i currentSlice;
          sent' = sent @ [sliceUploadReq]
      in case server env sliceUploadReq of
           DoError \<Rightarrow> (Some RequestFailed, sent')
         | ReadAllError \<Rightarrow> (Some ReadBodyFailed, sent')
         | Reply status sliceUploadBody \<Rightarrow>
             if status \<noteq> StatusOK then (Some (StatusError status sliceUploadBody), sent')
             else upload_slices env remoteFilePath uploadID file rest sent')"

definition create_file ::
  "upload_env \<Rightarrow> request \<Rightarrow> request list \<Rightarrow> error option \<times> request list" where
  "create_file env createFileReq sent =
     (let sent' = sent @ [createFileReq]
      in case server env createFileReq of
           DoError \<Rightarrow> (Some RequestFailed, sent')
         | ReadAllError \<Rightarrow> (Some ReadBodyFailed, sent')
         | Reply status createFileBody \<Rightarrow>
             if status \<noteq> StatusOK then (Some (StatusError status createFileBody), sent')
             else
               (case unmarshal_create env createFileBody of
                  None \<Rightarrow> (Some UnmarshalError, sent')
                | Some createFileResponse \<Rightarrow>
                    if cf_Errno createFileResponse \<noteq> 0
                    then (Some (ApiErrno (cf_Errno createFileResponse)), sent')
                    else (None, sent')))"

text \<open>\<open>UploadFile\<close> returns its error and the requests it issued, in order.
  \<open>after_precreate\<close> is the function from step 3 on.\<close>

definition after_precreate ::
  "upload_env \<Rightarrow> string \<Rightarrow> string \<Rightarrow> int \<Rightarrow> string list \<Rightarrow> PrecreateResponse
     \<Rightarrow> request list \<Rightarrow> error option \<times> request list" where
  "after_precreate env localFilePath remoteFilePath fileSize sliceMD5s precreateResponse sent =
     (if pc_ReturnType precreateResponse = 2 then (None, sent)
      else if pc_UploadID precreateResponse = [] then (Some NoUploadID, sent)
      else
        case os_Open env localFilePath of
          None \<Rightarrow> (Some OpenError, sent)
        | Some localFile \<Rightarrow>
            (case upload_slices env remoteFilePath (pc_UploadID precreateResponse) localFile
                    [0 ..< length sliceMD5s] sent of
               (Some err, sent') \<Rightarrow> (Some err, sent')
             | (None, sent') \<Rightarrow>
                 create_file env
                   (CreateFileRequest remoteFilePath fileSize
                      (pc_UploadID precreateResponse) sliceMD5s) sent'))"

definition UploadFile ::
  "upload_env \<Rightarrow> Client \<Rightarrow> string \<Rightarrow> string \<Rightarrow> error option \<times> request list" where
  "UploadFile env c localFilePath remoteFilePath =
     (if accessToken c = [] then (Some NoAccessToken, [])
      else
        case os_Stat env localFilePath of
          None \<Rightarrow> (Some StatError, [])
        | Some fileInfo \<Rightarrow>
            if st_IsDir fileInfo then (Some IsDirectory, [])
            else
              (case ensureRemoteDirExists env (filepath_Dir env remoteFilePath) of
                 Some err \<Rightarrow> (Some err, [])
               | None \<Rightarrow>
                   (case calculateSliceMD5 env localFilePath (int sliceSize) of
                      Inl err \<Rightarrow> (Some err, [])
                    | Inr sliceMD5s \<Rightarrow>
                        let precreateReq =
                              PrecreateRequest remoteFilePath (st_Size fileInfo) sliceMD5s;
                            sent = [precreateReq]
                        in case server env precreateReq of
                             DoError \<Rightarrow> (Some RequestFailed, sent)
                           | ReadAllError \<Rightarrow> (Some ReadBodyFailed, sent)
                           | Reply status precreateBody \<Rightarrow>
                               if status \<noteq> StatusOK
                               then (Some (StatusError status precreateBody), sent)
                               else
                                 (case unmarshal_precreate env precreateBody of
                                    None \<Rightarrow> (Some UnmarshalError, sent)
                                  | Some precreateResponse \<Rightarrow>
                                      if pc_Errno precreateResponse \<noteq> 0
                                      then (Some (ApiErrno (pc_Errno precreateResponse)), sent)
                                      else after_precreate env localFilePath remoteFilePath
                                             (st_Size fileInfo) sliceMD5s
                                             precreateResponse sent))))"

definition is_slice_request :: "request \<Rightarrow> bool" where
  "is_slice_request req = (case req of SliceUploadRequest p u i bs \<Rightarrow> True | _ \<Rightarrow> False)"

definition is_create_request :: "request \<Rightarrow> bool" where
  "is_create_request req = (case req of CreateFileRequest p s u b \<Rightarrow> True | _ \<Rightarrow> False)"

definition is_precreate_request :: "request \<Rightarrow> bool" where
  "is_precreate_request req = (case req of PrecreateRequest p s b \<Rightarrow> True | _ \<Rightarrow> False)"

text \<open>A sample world for uploads: one local file of five bytes, and a server that
  answers the precreate of \<open>/docs/present.txt\<close> with "already present", the
  precreate of \<open>/docs/refused.txt\<close> with an error code, and any other precreate
  with an upload id.\<close>

definition sample_server :: "request \<Rightarrow> http_reply" where
  "sample_server req =
     (case req of
        PrecreateRequest path n block_list \<Rightarrow>
          Reply 200 (if path = ''/docs/present.txt'' then ''present''
                     else if path = ''/docs/refused.txt'' then ''refused''
                     else ''upload'')
      | SliceUploadRequest path uploadid partseq bytes \<Rightarrow> Reply 200 ''slice''
      | CreateFileRequest path n uploadid block_list \<Rightarrow> Reply 200 ''created'')"

definition present_response :: PrecreateResponse where
  "present_response =
     \<lparr>pc_Errno = 0, pc_UploadID = [], pc_BlockList = [], pc_RequestID = 1, pc_ReturnType = 2\<rparr>"

definition refused_response :: PrecreateResponse where
  "refused_response =
     \<lparr>pc_Errno = - 7, pc_UploadID = [], pc_BlockList = [], pc_RequestID = 2, pc_ReturnType = 2\<rparr>"

definition upload_response :: PrecreateResponse where
  "upload_response =
     \<lparr>pc_Errno = 0, pc_UploadID = ''U1'', pc_BlockList = [0], pc_RequestID = 3,
      pc_ReturnType = 1\<rparr>"

definition sample_unmarshal_precreate :: "string \<Rightarrow> PrecreateResponse option" where
  "sample_unmarshal_precreate body =
     (if body = ''present'' then Some present_response
      else if body = ''refused'' then Some refused_response
      else if body = ''upload'' then Some upload_response
      else None)"

definition sample_unmarshal_create :: "string \<Rightarrow> CreateFileResponse option" where
  "sample_unmarshal_create body =
     (if body = ''created''
      then Some \<lparr>cf_Errno = 0, cf_FsID = 42, cf_Path = ''/docs/new.txt'', cf_MD5 = ''h0'',
                 cf_Size = 5\<rparr>
      else None)"

definition sample_upload_env :: upload_env where
  "sample_upload_env =
     \<lparr>os_Stat = (\<lambda>path. if path = ''a.txt''
                          then Some \<lparr>st_IsDir = False, st_Size = 5, st_Name = ''a.txt''\<rparr>
                          else None),
      filepath_Dir = (\<lambda>path. ''/docs''),
      ensureRemoteDirExists = (\<lambda>path. None),
      calculateSliceMD5 = (\<lambda>path n. if path = ''a.txt'' then Inr [''h0''] else Inl OpenError),
      os_Open = (\<lambda>path. if path = ''a.txt'' then Some [1, 2, 3, 4, 5] else None),
      server = sample_server,
      unmarshal_precreate = sample_unmarshal_precreate,
      unmarshal_create = sample_unmarshal_create\<rparr>"

section \<open>Listing and walking\<close>

record FileInfo =
  fi_FsID :: int
  fi_ServerFilename :: string
  fi_Size :: int
  fi_Path :: string
  fi_IsDir :: int








text \<open>
  A directory tree: a file, a directory with the trees of its entries, or a directory
  that cannot be listed. \<open>presents listing t\<close> holds when the listing function shows
  the tree \<open>t\<close> below the entry at its root; \<open>preorder\<close> is the depth-first pre-order
  of the entries of a tree, \<open>failures\<close> the errors of its unlistable directories in
  that order, \<open>depth\<close> the number of nested listings.
\<close>

datatype dtree = DFile FileInfo | DDir FileInfo "dtree list" | DFail FileInfo error






fun depth :: "dtree \<Rightarrow> nat" where
  "depth (DFile f) = 0"
| "depth (DDir f ts) = Suc (fold max (map depth ts) 0)"
| "depth (DFail f e) = 1"









section \<open>Properties of IsTokenExpired\<close>

lemma wrap64_id: "- (2 ^ 63) \<le> x \<Longrightarrow> x < 2 ^ 63 \<Longrightarrow> wrap64 x = x"
  by (simp add: wrap64_def)

lemma two_days: "Duration_mul 48 Hour = 172800000000000"
  by (simp add: Duration_mul_def Hour_def Second_def wrap64_def)

lemma seconds_no_wrap:
  assumes "- 9223372036 \<le> n" and "n \<le> 9223372036"
  shows "Duration_mul n Second = n * 1000000000"
proof -
  have "- (2 ^ 63) \<le> n * 1000000000" and "n * 1000000000 < 2 ^ 63"
    using assms by simp_all
  then show ?thesis
    unfolding Duration_mul_def Second_def by (rule wrap64_id)
qed

text \<open>
  C3 (as stated, refuted). A record created at the instant \<open>now\<close> (in the year
  2025) whose \<open>expires_in\<close> is 9223372037 seconds has its deadline about 292 years
  after \<open>now\<close>, far more than 48 hours in the future, yet \<open>IsTokenExpired\<close> returns
  true: the conversion of \<open>expires_in\<close> to nanoseconds wraps around to a negative
  duration.
\<close>

theorem IsTokenExpired_overflow_counterexample:
  "tokenCreatedAt \<lparr>clientID = ''id'', clientSecret = ''s'', accessToken = ''a'',
       refreshToken = ''r'', expiresIn = 9223372037, uid = ''u'', tokenFile = ''f'',
       tokenCreatedAt = 63900000000000000000\<rparr> \<noteq> 0
   \<and> expiresIn \<lparr>clientID = ''id'', clientSecret = ''s'', accessToken = ''a'',
       refreshToken = ''r'', expiresIn = 9223372037, uid = ''u'', tokenFile = ''f'',
       tokenCreatedAt = 63900000000000000000\<rparr> \<noteq> 0
   \<and> 63900000000000000000 + 48 * 3600 * 1000000000
       < (63900000000000000000 :: int) + 9223372037 * 1000000000
   \<and> IsTokenExpired \<lparr>clientID = ''id'', clientSecret = ''s'', accessToken = ''a'',
       refreshToken = ''r'', expiresIn = 9223372037, uid = ''u'', tokenFile = ''f'',
       tokenCreatedAt = 63900000000000000000\<rparr> 63900000000000000000"
  by (simp add: IsTokenExpired_def IsZero_def Time_Add_def Time_Before_def
      Duration_mul_def Second_def Hour_def wrap64_def)

text \<open>
  C3 (amended). When \<open>expires_in\<close> seconds fit a 64-bit duration in nanoseconds
  (\<open>|expires_in| \<le> 9223372036\<close>), \<open>IsTokenExpired\<close> is a function of the record and
  \<open>now\<close> that returns true when \<open>created_at\<close> or \<open>expires_in\<close> is zero, true when
  the deadline \<open>created_at + expires_in\<close> is before \<open>now\<close>, true when the deadline is
  less than 48 hours after \<open>now\<close>, and false when both fields are non-zero and the
  deadline is 48 hours or more after \<open>now\<close>.
\<close>

theorem IsTokenExpired_spec:
  assumes "- 9223372036 \<le> expiresIn c" and "expiresIn c \<le> 9223372036"
  shows "(tokenCreatedAt c = 0 \<or> expiresIn c = 0 \<longrightarrow> IsTokenExpired c now)
       \<and> (tokenCreatedAt c + expiresIn c * 1000000000 < now \<longrightarrow> IsTokenExpired c now)
       \<and> (tokenCreatedAt c + expiresIn c * 1000000000 < now + 48 * 3600 * 1000000000
            \<longrightarrow> IsTokenExpired c now)
       \<and> (tokenCreatedAt c \<noteq> 0 \<and> expiresIn c \<noteq> 0
            \<and> now + 48 * 3600 * 1000000000 \<le> tokenCreatedAt c + expiresIn c * 1000000000
            \<longrightarrow> \<not> IsTokenExpired c now)"
  using seconds_no_wrap [OF assms]
  by (auto simp add: IsTokenExpired_def IsZero_def Time_Add_def Time_Before_def two_days)

theorem IsTokenExpired_spec_witness:
  "- 9223372036 \<le> expiresIn \<lparr>clientID = ''id'', clientSecret = ''s'', accessToken = ''a'',
       refreshToken = ''r'', expiresIn = 2592000, uid = ''u'', tokenFile = ''f'',
       tokenCreatedAt = 63900000000000000000\<rparr>
   \<and> expiresIn \<lparr>clientID = ''id'', clientSecret = ''s'', accessToken = ''a'',
       refreshToken = ''r'', expiresIn = 2592000, uid = ''u'', tokenFile = ''f'',
       tokenCreatedAt = 63900000000000000000\<rparr> \<le> 9223372036
   \<and> \<not> IsTokenExpired \<lparr>clientID = ''id'', clientSecret = ''s'', accessToken = ''a'',
       refreshToken = ''r'', expiresIn = 2592000, uid = ''u'', tokenFile = ''f'',
       tokenCreatedAt = 63900000000000000000\<rparr> (63900000000000000000 + 86400 * 1000000000)
   \<and> IsTokenExpired \<lparr>clientID = ''id'', clientSecret = ''s'', accessToken = ''a'',
       refreshToken = ''r'', expiresIn = 2592000, uid = ''u'', tokenFile = ''f'',
       tokenCreatedAt = 63900000000000000000\<rparr>
         (63900000000000000000 + 29 * 86400 * 1000000000)"
  using IsTokenExpired_spec [of "\<lparr>clientID = ''id'', clientSecret = ''s'', accessToken = ''a'',
       refreshToken = ''r'', expiresIn = 2592000, uid = ''u'', tokenFile = ''f'',
       tokenCreatedAt = 63900000000000000000\<rparr>" "63900000000000000000 + 86400 * 1000000000"]
    IsTokenExpired_spec [of "\<lparr>clientID = ''id'', clientSecret = ''s'', accessToken = ''a'',
       refreshToken = ''r'', expiresIn = 2592000, uid = ''u'', tokenFile = ''f'',
       tokenCreatedAt = 63900000000000000000\<rparr>"
       "63900000000000000000 + 29 * 86400 * 1000000000"]
  by simp

section \<open>Properties of CalculateSliceMD5\<close>













section \<open>Properties of requestToken and the poll loop\<close>

text \<open>
  C4 (as stated, refuted). A response whose \<open>error\<close> field is
  \<open>authorization_pending\<close> is a failure of \<open>requestToken\<close> when its status is
  not 400: with status 401 the error is returned.
\<close>

theorem requestToken_status_gate_counterexample:
  "sample_unmarshal_error pending_body = ''authorization_pending''
   \<and> requestToken sample_unmarshal_error sample_unmarshal_token (Reply 401 pending_body)
       = Inl (StatusError 401 pending_body)"
  by (simp add: requestToken_def sample_unmarshal_error_def StatusOK_def StatusBadRequest_def)

lemma requestToken_pending_400:
  assumes "ue body = ''authorization_pending'' \<or> ue body = ''slow_down''"
  shows "requestToken ue ut (Reply StatusBadRequest body) = Inr empty_TokenResponse"
  using assms by (simp add: requestToken_def StatusOK_def StatusBadRequest_def)

lemma requestToken_fatal:
  assumes "status \<noteq> StatusOK"
    and "\<not> (status = StatusBadRequest
             \<and> (ue body = ''authorization_pending'' \<or> ue body = ''slow_down''))"
  shows "requestToken ue ut (Reply status body) = Inl (StatusError status body)"
  using assms by (auto simp add: requestToken_def)

lemma poll_loop_continue:
  assumes "\<not> Time_After now timeout"
    and "requestToken (unmarshal_error env) (unmarshal_token env) (replies env k)
           = Inr empty_TokenResponse"
  shows "poll_loop env interval timeout c now k =
         poll_loop env interval timeout c
           (Sleep (now + latency env k) (Duration_mul interval Second)) (Suc k)"
  using assms by (subst poll_loop.simps) (simp add: Let_def empty_TokenResponse_def)

lemma poll_loop_fatal:
  assumes "\<not> Time_After now timeout"
    and "requestToken (unmarshal_error env) (unmarshal_token env) (replies env k) = Inl err"
  shows "poll_loop env interval timeout c now k =
         Some \<lparr>returned = Inl err, client = c, finished_at = now + latency env k,
               requests = Suc k\<rparr>"
  using assms by (subst poll_loop.simps) (simp add: Let_def)

lemma poll_loop_expired:
  assumes "Time_After now timeout"
  shows "poll_loop env interval timeout c now k =
         Some \<lparr>returned = Inl DeviceCodeExpired, client = c, finished_at = now, requests = k\<rparr>"
  using assms by (subst poll_loop.simps) simp


lemma polls_until_step:
  assumes "0 < d" and "\<not> timeout < now"
  shows "polls_until d timeout now = Suc (polls_until d timeout (now + d))"
proof (cases "timeout < now + d")
  case True
  then have "(timeout - now) div d = 0" using assms by simp
  then show ?thesis using True assms by (simp add: polls_until_def)
next
  case False
  have "d \<noteq> 0" using assms by simp
  then have "(timeout - (now + d) + d) div d = (timeout - (now + d)) div d + 1"
    by (rule div_add_self2)
  then have "(timeout - (now + d)) div d = (timeout - now) div d - 1"
    by simp
  moreover have "0 < (timeout - now) div d"
    using False assms pos_imp_zdiv_pos_iff [of d "timeout - now"] by simp
  ultimately show ?thesis using False assms by (simp add: polls_until_def)
qed

lemma poll_loop_all_pending:
  assumes pend: "\<And>k. requestToken (unmarshal_error env) (unmarshal_token env) (replies env k)
                      = Inr empty_TokenResponse"
    and lat: "\<And>k. latency env k = 0"
    and d: "Duration_mul interval Second = d" and pos: "0 < d"
  shows "poll_loop env interval timeout c now k =
         Some \<lparr>returned = Inl DeviceCodeExpired, client = c,
               finished_at = now + int (polls_until d timeout now) * d,
               requests = k + polls_until d timeout now\<rparr>"
proof (induction "polls_until d timeout now" arbitrary: now k)
  case 0
  then have "timeout < now" by (simp add: polls_until_def split: if_splits)
  then have "Time_After now timeout" by (simp add: Time_After_def)
  then show ?case using 0 by (simp add: poll_loop_expired)
next
  case (Suc n)
  then have alive: "\<not> timeout < now" by (auto simp: polls_until_def)
  then have "\<not> Time_After now timeout" by (simp add: Time_After_def)
  then have "poll_loop env interval timeout c now k =
       poll_loop env interval timeout c
         (Sleep (now + latency env k) (Duration_mul interval Second)) (Suc k)"
    using pend by (rule poll_loop_continue)
  then have step: "poll_loop env interval timeout c now k =
       poll_loop env interval timeout c (now + d) (Suc k)"
    using pos by (simp add: lat d Sleep_def)
  have cnt: "polls_until d timeout now = Suc (polls_until d timeout (now + d))"
    using pos alive by (rule polls_until_step)
  then have "n = polls_until d timeout (now + d)" using Suc(2) by simp
  from Suc(1) [OF this, of "Suc k"] show ?case
    by (simp add: step cnt algebra_simps)
qed


lemma five_seconds: "Duration_mul 5 Second = 5000000000"
  by (simp add: Duration_mul_def Second_def wrap64_def)

lemma poll_loop_advertised:
  assumes "\<And>k. requestToken (unmarshal_error env) (unmarshal_token env) (replies env k)
                 = Inr empty_TokenResponse"
    and "\<And>k. latency env k = 0"
  shows "poll_loop env 5 (Time_Add now (Duration_mul 10 Second)) c now 0 =
         Some \<lparr>returned = Inl DeviceCodeExpired, client = c,
               finished_at = now + 15 * Second, requests = 3\<rparr>"
  using poll_loop_all_pending [OF assms five_seconds, of "Time_Add now (Duration_mul 10 Second)" c now 0]
  by (simp add: polls_until_def Time_Add_def Duration_mul_def wrap64_def Second_def)

text \<open>
  C1. \<open>PollForToken\<close> is given the device code only and takes the interval and the
  expiry from \<open>GetDeviceCodeForPoll\<close>, which always answers 5 and 1800 seconds.
  Whatever the session advertises (5 and 10 seconds, say), when every request is
  answered at once with \<open>authorization_pending\<close> the loop sends 361 requests, one
  every 5 seconds, and gives up 1805 seconds after it started. (With the advertised
  values the loop itself would send 3 requests and end after 15 seconds:
  \<open>poll_loop_advertised\<close>.)
\<close>

theorem PollForToken_default_expiry:
  assumes "\<forall>k. \<exists>body. replies env k = Reply StatusBadRequest body
                    \<and> unmarshal_error env body = ''authorization_pending''"
    and "\<forall>k. latency env k = 0"
  shows "performDeviceCodeAuth_poll env c deviceResp now =
         Some \<lparr>returned = Inl DeviceCodeExpired, client = c,
               finished_at = now + 1805 * Second, requests = 361\<rparr>"
proof -
  have pend: "\<And>k. requestToken (unmarshal_error env) (unmarshal_token env) (replies env k)
                 = Inr empty_TokenResponse"
  proof -
    fix k
    from assms(1) obtain body where
      "replies env k = Reply StatusBadRequest body"
      "unmarshal_error env body = ''authorization_pending''" by blast
    then show "requestToken (unmarshal_error env) (unmarshal_token env) (replies env k)
                 = Inr empty_TokenResponse"
      by (simp add: requestToken_pending_400)
  qed
  have lat: "\<And>k. latency env k = 0" using assms(2) by simp
  have "poll_loop env 5 (Time_Add now (Duration_mul 1800 Second)) c now 0 =
         Some \<lparr>returned = Inl DeviceCodeExpired, client = c,
               finished_at = now + 1805 * Second, requests = 361\<rparr>"
    using poll_loop_all_pending [OF pend lat five_seconds, of "Time_Add now (Duration_mul 1800 Second)" c now 0]
    by (simp add: polls_until_def Time_Add_def Duration_mul_def wrap64_def Second_def)
  then show ?thesis
    by (simp add: performDeviceCodeAuth_poll_def PollForToken_def GetDeviceCodeForPoll_def)
qed

theorem PollForToken_default_expiry_witness:
  "Interval advertised_session = 5 \<and> dc_ExpiresIn advertised_session = 10
   \<and> performDeviceCodeAuth_poll always_pending sample_client advertised_session 0 =
       Some \<lparr>returned = Inl DeviceCodeExpired, client = sample_client,
             finished_at = 1805 * Second, requests = 361\<rparr>"
proof -
  have 1: "\<forall>k. \<exists>body. replies always_pending k = Reply StatusBadRequest body
                    \<and> unmarshal_error always_pending body = ''authorization_pending''"
    by (simp add: always_pending_def StatusBadRequest_def sample_unmarshal_error_def)
  have 2: "\<forall>k. latency always_pending k = 0"
    by (simp add: always_pending_def)
  show ?thesis
    using PollForToken_default_expiry [OF 1 2, of sample_client advertised_session 0]
    by (simp add: advertised_session_def)
qed

text \<open>
  C4 (amended). A response with status 400 whose \<open>error\<close> field is
  \<open>authorization_pending\<close> or \<open>slow_down\<close> is no failure: \<open>requestToken\<close>
  returns the empty token, and the poll loop sleeps and polls again. Every other
  response whose status is not 200 makes \<open>requestToken\<close> return an error, and the
  poll loop return that error.
\<close>

theorem requestToken_keep_polling:
  "(status = StatusBadRequest
      \<and> (unmarshal_error env body = ''authorization_pending''
           \<or> unmarshal_error env body = ''slow_down'')
     \<longrightarrow> requestToken (unmarshal_error env) (unmarshal_token env) (Reply status body)
           = Inr empty_TokenResponse
         \<and> (\<not> Time_After now timeout \<and> replies env k = Reply status body
              \<longrightarrow> poll_loop env interval timeout c now k =
                    poll_loop env interval timeout c
                      (Sleep (now + latency env k) (Duration_mul interval Second)) (Suc k)))
   \<and> (status \<noteq> StatusOK
        \<and> \<not> (status = StatusBadRequest
               \<and> (unmarshal_error env body = ''authorization_pending''
                    \<or> unmarshal_error env body = ''slow_down''))
     \<longrightarrow> requestToken (unmarshal_error env) (unmarshal_token env) (Reply status body)
           = Inl (StatusError status body)
         \<and> (\<not> Time_After now timeout \<and> replies env k = Reply status body
              \<longrightarrow> poll_loop env interval timeout c now k =
                    Some \<lparr>returned = Inl (StatusError status body), client = c,
                          finished_at = now + latency env k, requests = Suc k\<rparr>))"
proof (intro conjI impI)
  assume a: "status = StatusBadRequest
      \<and> (unmarshal_error env body = ''authorization_pending''
           \<or> unmarshal_error env body = ''slow_down'')"
  then show r: "requestToken (unmarshal_error env) (unmarshal_token env) (Reply status body)
           = Inr empty_TokenResponse"
    by (simp add: requestToken_pending_400)
  assume "\<not> Time_After now timeout \<and> replies env k = Reply status body"
  then show "poll_loop env interval timeout c now k =
                    poll_loop env interval timeout c
                      (Sleep (now + latency env k) (Duration_mul interval Second)) (Suc k)"
    using r by (simp add: poll_loop_continue)
next
  assume a: "status \<noteq> StatusOK
        \<and> \<not> (status = StatusBadRequest
               \<and> (unmarshal_error env body = ''authorization_pending''
                    \<or> unmarshal_error env body = ''slow_down''))"
  then show r: "requestToken (unmarshal_error env) (unmarshal_token env) (Reply status body)
           = Inl (StatusError status body)"
    using requestToken_fatal [of status "unmarshal_error env" body "unmarshal_token env"] by blast
  assume "\<not> Time_After now timeout \<and> replies env k = Reply status body"
  then show "poll_loop env interval timeout c now k =
                    Some \<lparr>returned = Inl (StatusError status body), client = c,
                          finished_at = now + latency env k, requests = Suc k\<rparr>"
    using r by (simp add: poll_loop_fatal)
qed

theorem requestToken_keep_polling_witness:
  "requestToken sample_unmarshal_error sample_unmarshal_token (Reply 400 pending_body)
     = Inr empty_TokenResponse
   \<and> requestToken sample_unmarshal_error sample_unmarshal_token (Reply 503 pending_body)
     = Inl (StatusError 503 pending_body)"
  using requestToken_keep_polling [of 400 always_pending pending_body 0 0 0 0 sample_client]
    requestToken_keep_polling [of 503 always_pending pending_body 0 0 0 0 sample_client]
  by (simp add: always_pending_def sample_unmarshal_error_def StatusOK_def StatusBadRequest_def)

section \<open>Properties of RefreshToken\<close>





section \<open>Properties of the batch operations\<close>

lemma index_in_bounds: "i < length xs \<Longrightarrow> index xs i = Some (xs ! i)"
  by (simp add: index_def)

lemma index_out_of_bounds: "length xs \<le> i \<Longrightarrow> index xs i = None"
  by (simp add: index_def)

lemma failedMoves_loop_zip:
  "length infos \<le> length reqs - i \<Longrightarrow>
   failedMoves_loop reqs i infos acc =
     Returns (acc @ map (\<lambda>(req, info). move_entry req (mi_Errno info))
                      (filter (\<lambda>(req, info). mi_Errno info \<noteq> 0) (zip (drop i reqs) infos)))"
proof (induction infos arbitrary: i acc)
  case Nil
  then show ?case by simp
next
  case (Cons info rest)
  then have i: "i < length reqs" and rest: "length rest \<le> length reqs - Suc i" by simp_all
  have d: "drop i reqs = reqs ! i # drop (Suc i) reqs"
    using i by (simp add: Cons_nth_drop_Suc)
  show ?case
    using Cons.IH [OF rest] by (simp add: index_in_bounds [OF i] d)
qed

lemma failedCopies_loop_zip:
  "length infos \<le> length reqs - i \<Longrightarrow>
   failedCopies_loop reqs i infos acc =
     Returns (acc @ map (\<lambda>(req, info). copy_entry req (ci_Errno info))
                      (filter (\<lambda>(req, info). ci_Errno info \<noteq> 0) (zip (drop i reqs) infos)))"
proof (induction infos arbitrary: i acc)
  case Nil
  then show ?case by simp
next
  case (Cons info rest)
  then have i: "i < length reqs" and rest: "length rest \<le> length reqs - Suc i" by simp_all
  have d: "drop i reqs = reqs ! i # drop (Suc i) reqs"
    using i by (simp add: Cons_nth_drop_Suc)
  show ?case
    using Cons.IH [OF rest] by (simp add: index_in_bounds [OF i] d)
qed

lemma copied_loop_zip:
  "length infos \<le> length reqs - i \<Longrightarrow>
   copied_loop reqs i infos acc =
     Returns (acc @ map copy_success (take (length infos) (drop i reqs)))"
proof (induction infos arbitrary: i acc)
  case Nil
  then show ?case by simp
next
  case (Cons info rest)
  then have i: "i < length reqs" and rest: "length rest \<le> length reqs - Suc i" by simp_all
  have d: "drop i reqs = reqs ! i # drop (Suc i) reqs"
    using i by (simp add: Cons_nth_drop_Suc)
  show ?case
    using Cons.IH [OF rest] by (simp add: index_in_bounds [OF i] d)
qed

lemma failedRenames_loop_zip:
  "length infos \<le> length reqs - i \<Longrightarrow>
   failedRenames_loop reqs i infos acc =
     Returns (acc @ map (\<lambda>(req, info). rename_entry req (ri_Errno info))
                      (filter (\<lambda>(req, info). ri_Errno info \<noteq> 0) (zip (drop i reqs) infos)))"
proof (induction infos arbitrary: i acc)
  case Nil
  then show ?case by simp
next
  case (Cons info rest)
  then have i: "i < length reqs" and rest: "length rest \<le> length reqs - Suc i" by simp_all
  have d: "drop i reqs = reqs ! i # drop (Suc i) reqs"
    using i by (simp add: Cons_nth_drop_Suc)
  show ?case
    using Cons.IH [OF rest] by (simp add: index_in_bounds [OF i] d)
qed

lemma failedFiles_loop_filter:
  "failedFiles_loop entries acc =
     acc @ map delete_entry (filter (\<lambda>entry. de_Errno entry \<noteq> 0) entries)"
  by (induction entries arbitrary: acc) simp_all

lemma ex_less_Cons:
  "(\<exists>j < length (x # xs). P j) \<longleftrightarrow> P 0 \<or> (\<exists>j < length xs. P (Suc j))"
  by (auto simp: less_Suc_eq_0_disj)

lemma failedMoves_loop_Panics_iff:
  "failedMoves_loop reqs i infos acc = Panics \<longleftrightarrow>
     (\<exists>j < length infos. mi_Errno (infos ! j) \<noteq> 0 \<and> length reqs \<le> i + j)"
proof (induction infos arbitrary: i acc)
  case Nil
  then show ?case by simp
next
  case (Cons info rest)
  show ?case
    unfolding ex_less_Cons by (simp add: Cons.IH index_def)
qed

lemma failedCopies_loop_Panics_iff:
  "failedCopies_loop reqs i infos acc = Panics \<longleftrightarrow>
     (\<exists>j < length infos. ci_Errno (infos ! j) \<noteq> 0 \<and> length reqs \<le> i + j)"
proof (induction infos arbitrary: i acc)
  case Nil
  then show ?case by simp
next
  case (Cons info rest)
  show ?case
    unfolding ex_less_Cons by (simp add: Cons.IH index_def)
qed

lemma failedRenames_loop_Panics_iff:
  "failedRenames_loop reqs i infos acc = Panics \<longleftrightarrow>
     (\<exists>j < length infos. ri_Errno (infos ! j) \<noteq> 0 \<and> length reqs \<le> i + j)"
proof (induction infos arbitrary: i acc)
  case Nil
  then show ?case by simp
next
  case (Cons info rest)
  show ?case
    unfolding ex_less_Cons by (simp add: Cons.IH index_def)
qed

lemma copied_loop_Panics_iff:
  "i \<le> length reqs \<Longrightarrow>
   copied_loop reqs i infos acc = Panics \<longleftrightarrow> length reqs < i + length infos"
proof (induction infos arbitrary: i acc)
  case Nil
  then show ?case by simp
next
  case (Cons info rest)
  show ?case
  proof (cases "i < length reqs")
    case True
    then show ?thesis using Cons.IH [of "Suc i"] by (simp add: index_def)
  next
    case False
    then show ?thesis using Cons.prems by (simp add: index_def)
  qed
qed

lemma failedCopies_loop_none:
  "\<forall>info \<in> set infos. ci_Errno info = 0 \<Longrightarrow> failedCopies_loop reqs i infos acc = Returns acc"
  by (induction infos arbitrary: i acc) simp_all

lemma MoveFiles_Panics_iff:
  "MoveFiles um r c reqs = Panics \<longleftrightarrow>
     accessToken c \<noteq> [] \<and> reqs \<noteq> []
     \<and> (\<exists>resp. decoded um r = Some resp \<and> move_Errno resp = 0
           \<and> failedMoves_loop reqs 0 (move_Info resp) [] = Panics)"
  by (auto simp: MoveFiles_def decoded_def split: http_reply.splits option.splits go.splits)

lemma RenameFiles_Panics_iff:
  "RenameFiles um r c reqs = Panics \<longleftrightarrow>
     accessToken c \<noteq> [] \<and> reqs \<noteq> []
     \<and> (\<exists>resp. decoded um r = Some resp \<and> rename_Errno resp = 0
           \<and> failedRenames_loop reqs 0 (rename_Info resp) [] = Panics)"
  by (auto simp: RenameFiles_def decoded_def split: http_reply.splits option.splits go.splits)

lemma CopyFiles_Panics_iff:
  "CopyFiles um r c reqs = Panics \<longleftrightarrow>
     accessToken c \<noteq> [] \<and> reqs \<noteq> []
     \<and> (\<exists>resp. decoded um r = Some resp \<and> copy_Errno resp = 0
           \<and> (failedCopies_loop reqs 0 (copy_Info resp) [] = Panics
               \<or> failedCopies_loop reqs 0 (copy_Info resp) [] = Returns []
                 \<and> copied_loop reqs 0 (copy_Info resp) [] = Panics))"
  by (auto simp: CopyFiles_def decoded_def split: http_reply.splits option.splits go.splits)


lemma failedMoves_loop_none:
  "\<forall>info \<in> set infos. mi_Errno info = 0 \<Longrightarrow> failedMoves_loop reqs i infos acc = Returns acc"
  by (induction infos arbitrary: i acc) simp_all

lemma failedRenames_loop_none:
  "\<forall>info \<in> set infos. ri_Errno info = 0 \<Longrightarrow> failedRenames_loop reqs i infos acc = Returns acc"
  by (induction infos arbitrary: i acc) simp_all

lemma failedCopies_loop_Returns_Nil:
  "failedCopies_loop reqs i infos acc = Returns [] \<longleftrightarrow>
     acc = [] \<and> (\<forall>info \<in> set infos. ci_Errno info = 0)"
  by (induction infos arbitrary: i acc) (auto simp: index_def)

lemma MoveFiles_decoded:
  assumes "accessToken c \<noteq> []" and "reqs \<noteq> []"
    and "decoded um r = Some resp" and "move_Errno resp = 0"
  shows "MoveFiles um r c reqs =
           (case failedMoves_loop reqs 0 (move_Info resp) [] of
              Panics \<Rightarrow> Panics
            | Returns failed \<Rightarrow> Returns (reported failed))"
  using assms
  by (auto simp: MoveFiles_def decoded_def reported_def
      split: http_reply.splits option.splits go.splits if_splits)

lemma RenameFiles_decoded:
  assumes "accessToken c \<noteq> []" and "reqs \<noteq> []"
    and "decoded um r = Some resp" and "rename_Errno resp = 0"
  shows "RenameFiles um r c reqs =
           (case failedRenames_loop reqs 0 (rename_Info resp) [] of
              Panics \<Rightarrow> Panics
            | Returns failed \<Rightarrow> Returns (reported failed))"
  using assms
  by (auto simp: RenameFiles_def decoded_def reported_def
      split: http_reply.splits option.splits go.splits if_splits)

lemma CopyFiles_decoded:
  assumes "accessToken c \<noteq> []" and "reqs \<noteq> []"
    and "decoded um r = Some resp" and "copy_Errno resp = 0"
  shows "CopyFiles um r c reqs =
           (case failedCopies_loop reqs 0 (copy_Info resp) [] of
              Panics \<Rightarrow> Panics
            | Returns failed \<Rightarrow>
                if failed \<noteq> [] then Returns (reported failed, [])
                else (case copied_loop reqs 0 (copy_Info resp) [] of
                        Panics \<Rightarrow> Panics
                      | Returns printed \<Rightarrow> Returns (None, printed)))"
  using assms
  by (auto simp: CopyFiles_def decoded_def reported_def
      split: http_reply.splits option.splits go.splits if_splits)

lemma RemoveFiles_decoded:
  assumes "accessToken c \<noteq> []" and "paths \<noteq> []"
    and "decoded um (srv (fileListJSON paths)) = Some resp" and "delete_Errno resp = 0"
  shows "RemoveFiles um srv c paths = reported (failed_deletes (delete_List resp))"
  using assms
  by (auto simp: RemoveFiles_def decoded_def reported_def failed_deletes_def
      failedFiles_loop_filter Let_def
      split: http_reply.splits option.splits if_splits)


text \<open>
  C7 (as stated, refuted). A copy of one item is answered with top-level \<open>errno\<close>
  zero and two per-item results, none of them with a non-zero \<open>errno\<close>: \<open>CopyFiles\<close>
  does not return success, it panics on the index of the second result when it
  prints the copied files.
\<close>

theorem CopyFiles_oversized_counterexample:
  "decoded sample_unmarshal_copy (Reply 200 ''two copied'') = Some two_copied
   \<and> copy_Errno two_copied = 0
   \<and> map ci_Errno (copy_Info two_copied) = [0, 0]
   \<and> CopyFiles sample_unmarshal_copy (Reply 200 ''two copied'') sample_client one_copy = Panics"
  by (simp add: decoded_def CopyFiles_def sample_unmarshal_copy_def two_copied_def
      sample_client_def one_copy_def StatusOK_def index_def)

text \<open>
  C7 (amended). In a move, copy, rename or delete whose parsed response has top-level
  \<open>errno\<close> zero, the per-item failures are reported together, as one error that
  lists the entry of every item with a non-zero per-item \<open>errno\<close> and of no other
  item: for move, copy and rename when the response holds no more results than items
  were requested (the result at position \<open>i\<close> is paired with request \<open>i\<close>), for
  delete always. A rename of three items of which only the second has a non-zero
  per-item \<open>errno\<close> returns the error that lists the second request alone. When no
  per-item \<open>errno\<close> is non-zero, move, rename and delete return success, and so does
  copy when the response holds no more results than items were requested.
\<close>

theorem batch_partial_failures:
  "(accessToken c \<noteq> [] \<and> mreqs \<noteq> [] \<and> decoded mum mr = Some mresp \<and> move_Errno mresp = 0
      \<longrightarrow> (length (move_Info mresp) \<le> length mreqs
            \<longrightarrow> MoveFiles mum mr c mreqs
                  = Returns (reported (failed_moves mreqs (move_Info mresp))))
         \<and> ((\<forall>info \<in> set (move_Info mresp). mi_Errno info = 0)
            \<longrightarrow> MoveFiles mum mr c mreqs = Returns None))
   \<and> (accessToken c \<noteq> [] \<and> creqs \<noteq> [] \<and> decoded cum cr = Some cresp \<and> copy_Errno cresp = 0
        \<and> length (copy_Info cresp) \<le> length creqs
      \<longrightarrow> (failed_copies creqs (copy_Info cresp) \<noteq> []
            \<longrightarrow> CopyFiles cum cr c creqs
                  = Returns (reported (failed_copies creqs (copy_Info cresp)), []))
         \<and> ((\<forall>info \<in> set (copy_Info cresp). ci_Errno info = 0)
            \<longrightarrow> CopyFiles cum cr c creqs
                  = Returns (None, map copy_success (take (length (copy_Info cresp)) creqs))))
   \<and> (accessToken c \<noteq> [] \<and> rreqs \<noteq> [] \<and> decoded rum rr = Some rresp \<and> rename_Errno rresp = 0
      \<longrightarrow> (length (rename_Info rresp) \<le> length rreqs
            \<longrightarrow> RenameFiles rum rr c rreqs
                  = Returns (reported (failed_renames rreqs (rename_Info rresp))))
         \<and> ((\<forall>info \<in> set (rename_Info rresp). ri_Errno info = 0)
            \<longrightarrow> RenameFiles rum rr c rreqs = Returns None)
         \<and> (rreqs = [q1, q2, q3] \<and> rename_Info rresp = [i1, i2, i3]
              \<and> ri_Errno i1 = 0 \<and> ri_Errno i2 \<noteq> 0 \<and> ri_Errno i3 = 0
            \<longrightarrow> RenameFiles rum rr c rreqs
                  = Returns (Some (PartialFailure [rename_entry q2 (ri_Errno i2)]))))
   \<and> (accessToken c \<noteq> [] \<and> paths \<noteq> []
        \<and> decoded dum (dsrv (fileListJSON paths)) = Some dresp \<and> delete_Errno dresp = 0
      \<longrightarrow> RemoveFiles dum dsrv c paths = reported (failed_deletes (delete_List dresp))
         \<and> ((\<forall>entry \<in> set (delete_List dresp). de_Errno entry = 0)
            \<longrightarrow> RemoveFiles dum dsrv c paths = None))"
proof (intro conjI impI)
  assume a: "accessToken c \<noteq> [] \<and> mreqs \<noteq> [] \<and> decoded mum mr = Some mresp
      \<and> move_Errno mresp = 0"
  then have run: "MoveFiles mum mr c mreqs =
           (case failedMoves_loop mreqs 0 (move_Info mresp) [] of
              Panics \<Rightarrow> Panics
            | Returns failed \<Rightarrow> Returns (reported failed))"
    by (simp add: MoveFiles_decoded)
  {
    assume "length (move_Info mresp) \<le> length mreqs"
    then show "MoveFiles mum mr c mreqs
                  = Returns (reported (failed_moves mreqs (move_Info mresp)))"
      using failedMoves_loop_zip [of "move_Info mresp" mreqs 0 "[]"]
      by (simp add: run failed_moves_def)
  next
    assume "\<forall>info \<in> set (move_Info mresp). mi_Errno info = 0"
    then show "MoveFiles mum mr c mreqs = Returns None"
      by (simp add: run failedMoves_loop_none reported_def)
  }
next
  assume a: "accessToken c \<noteq> [] \<and> creqs \<noteq> [] \<and> decoded cum cr = Some cresp
      \<and> copy_Errno cresp = 0 \<and> length (copy_Info cresp) \<le> length creqs"
  then have run: "CopyFiles cum cr c creqs =
           (case failedCopies_loop creqs 0 (copy_Info cresp) [] of
              Panics \<Rightarrow> Panics
            | Returns failed \<Rightarrow>
                if failed \<noteq> [] then Returns (reported failed, [])
                else (case copied_loop creqs 0 (copy_Info cresp) [] of
                        Panics \<Rightarrow> Panics
                      | Returns printed \<Rightarrow> Returns (None, printed)))"
    by (simp add: CopyFiles_decoded)
  have loop: "failedCopies_loop creqs 0 (copy_Info cresp) []
                = Returns (failed_copies creqs (copy_Info cresp))"
    using a failedCopies_loop_zip [of "copy_Info cresp" creqs 0 "[]"]
    by (simp add: failed_copies_def)
  have printed: "copied_loop creqs 0 (copy_Info cresp) []
                = Returns (map copy_success (take (length (copy_Info cresp)) creqs))"
    using a copied_loop_zip [of "copy_Info cresp" creqs 0 "[]"] by simp
  {
    assume "failed_copies creqs (copy_Info cresp) \<noteq> []"
    then show "CopyFiles cum cr c creqs
                  = Returns (reported (failed_copies creqs (copy_Info cresp)), [])"
      by (simp add: run loop)
  next
    assume "\<forall>info \<in> set (copy_Info cresp). ci_Errno info = 0"
    then have "failedCopies_loop creqs 0 (copy_Info cresp) [] = Returns []"
      by (simp add: failedCopies_loop_none)
    then show "CopyFiles cum cr c creqs
                  = Returns (None, map copy_success (take (length (copy_Info cresp)) creqs))"
      by (simp add: run printed)
  }
next
  assume a: "accessToken c \<noteq> [] \<and> rreqs \<noteq> [] \<and> decoded rum rr = Some rresp
      \<and> rename_Errno rresp = 0"
  then have run: "RenameFiles rum rr c rreqs =
           (case failedRenames_loop rreqs 0 (rename_Info rresp) [] of
              Panics \<Rightarrow> Panics
            | Returns failed \<Rightarrow> Returns (reported failed))"
    by (simp add: RenameFiles_decoded)
  {
    assume "length (rename_Info rresp) \<le> length rreqs"
    then show "RenameFiles rum rr c rreqs
                  = Returns (reported (failed_renames rreqs (rename_Info rresp)))"
      using failedRenames_loop_zip [of "rename_Info rresp" rreqs 0 "[]"]
      by (simp add: run failed_renames_def)
  next
    assume "\<forall>info \<in> set (rename_Info rresp). ri_Errno info = 0"
    then show "RenameFiles rum rr c rreqs = Returns None"
      by (simp add: run failedRenames_loop_none reported_def)
  next
    assume "rreqs = [q1, q2, q3] \<and> rename_Info rresp = [i1, i2, i3]
              \<and> ri_Errno i1 = 0 \<and> ri_Errno i2 \<noteq> 0 \<and> ri_Errno i3 = 0"
    then show "RenameFiles rum rr c rreqs
                  = Returns (Some (PartialFailure [rename_entry q2 (ri_Errno i2)]))"
      using run by (simp add: index_def reported_def)
  }
next
  assume a: "accessToken c \<noteq> [] \<and> paths \<noteq> []
        \<and> decoded dum (dsrv (fileListJSON paths)) = Some dresp \<and> delete_Errno dresp = 0"
  then show run: "RemoveFiles dum dsrv c paths = reported (failed_deletes (delete_List dresp))"
    by (simp add: RemoveFiles_decoded)
  assume "\<forall>entry \<in> set (delete_List dresp). de_Errno entry = 0"
  then have "filter (\<lambda>entry. de_Errno entry \<noteq> 0) (delete_List dresp) = []"
    by (simp add: filter_empty_conv)
  then show "RemoveFiles dum dsrv c paths = None"
    by (simp add: run failed_deletes_def reported_def)
qed


theorem batch_partial_failures_witness:
  "decoded sample_unmarshal_rename (Reply 200 ''second failed'') = Some second_failed
   \<and> rename_Errno second_failed = 0
   \<and> map ri_Errno (rename_Info second_failed) = [0, - 9, 0]
   \<and> RenameFiles sample_unmarshal_rename (Reply 200 ''second failed'') sample_client three_renames
       = Returns (Some (PartialFailure [''/docs/b.txt -> b1.txt (error code: -9)'']))"
proof -
  have d: "decoded sample_unmarshal_rename (Reply 200 ''second failed'') = Some second_failed"
    by (simp add: decoded_def sample_unmarshal_rename_def StatusOK_def)
  have e: "rename_Errno second_failed = 0"
    and es: "map ri_Errno (rename_Info second_failed) = [0, - 9, 0]"
    by (simp_all add: second_failed_def)
  have pre: "accessToken sample_client \<noteq> [] \<and> three_renames \<noteq> []
      \<and> decoded sample_unmarshal_rename (Reply 200 ''second failed'') = Some second_failed
      \<and> rename_Errno second_failed = 0"
    using d e by (simp add: sample_client_def three_renames_def)
  have ex: "three_renames = [\<lparr>rr_Path = ''/docs/a.txt'', rr_NewName = ''a1.txt''\<rparr>,
                             \<lparr>rr_Path = ''/docs/b.txt'', rr_NewName = ''b1.txt''\<rparr>,
                             \<lparr>rr_Path = ''/docs/c.txt'', rr_NewName = ''c1.txt''\<rparr>]
      \<and> rename_Info second_failed = [\<lparr>ri_Path = ''/docs/a.txt'', ri_Errno = 0\<rparr>,
                     \<lparr>ri_Path = ''/docs/b.txt'', ri_Errno = - 9\<rparr>,
                     \<lparr>ri_Path = ''/docs/c.txt'', ri_Errno = 0\<rparr>]
      \<and> ri_Errno \<lparr>ri_Path = ''/docs/a.txt'', ri_Errno = 0\<rparr> = 0
      \<and> ri_Errno \<lparr>ri_Path = ''/docs/b.txt'', ri_Errno = - 9\<rparr> \<noteq> 0
      \<and> ri_Errno \<lparr>ri_Path = ''/docs/c.txt'', ri_Errno = 0\<rparr> = 0"
    by (simp add: three_renames_def second_failed_def)
  have "RenameFiles sample_unmarshal_rename (Reply 200 ''second failed'') sample_client three_renames
       = Returns (Some (PartialFailure
           [rename_entry \<lparr>rr_Path = ''/docs/b.txt'', rr_NewName = ''b1.txt''\<rparr>
              (ri_Errno \<lparr>ri_Path = ''/docs/b.txt'', ri_Errno = - 9\<rparr>)]))"
    using batch_partial_failures [THEN conjunct2, THEN conjunct2, THEN conjunct1, rule_format,
        OF pre, THEN conjunct2, THEN conjunct2, rule_format, OF ex] .
  then have "RenameFiles sample_unmarshal_rename (Reply 200 ''second failed'') sample_client
        three_renames
       = Returns (Some (PartialFailure [''/docs/b.txt -> b1.txt (error code: -9)'']))"
    by (simp add: rename_entry_def fmt_d_def digit_char_def)
  with d e es show ?thesis by (intro conjI)
qed

text \<open>
  C9. \<open>MoveFiles\<close>, \<open>CopyFiles\<close> and \<open>RenameFiles\<close> index the request list by the
  position of an entry of \<open>Info\<close>. When every response the reply can be parsed to has
  an \<open>Info\<close> no longer than the request list, every position of \<open>Info\<close> is an index
  of the request list and none of the three panics. The bound cannot be dropped:
  \<open>MoveFiles\<close> and \<open>RenameFiles\<close> panic exactly when the response has a failed
  entry at a position outside the request list, \<open>CopyFiles\<close> exactly then or when
  no entry has failed and \<open>Info\<close> is longer than the request list.
\<close>

theorem batch_index_in_bounds:
  "((\<forall>resp. decoded mum mr = Some resp \<longrightarrow> length (move_Info resp) \<le> length mreqs)
      \<longrightarrow> MoveFiles mum mr c mreqs \<noteq> Panics)
   \<and> ((\<forall>resp. decoded cum cr = Some resp \<longrightarrow> length (copy_Info resp) \<le> length creqs)
      \<longrightarrow> CopyFiles cum cr c creqs \<noteq> Panics)
   \<and> ((\<forall>resp. decoded rum rr = Some resp \<longrightarrow> length (rename_Info resp) \<le> length rreqs)
      \<longrightarrow> RenameFiles rum rr c rreqs \<noteq> Panics)
   \<and> (length (infos :: 'b list) \<le> length (reqs :: 'a list)
      \<longrightarrow> (\<forall>i < length infos. index reqs i = Some (reqs ! i)))
   \<and> (MoveFiles mum mr c mreqs = Panics \<longleftrightarrow>
        accessToken c \<noteq> [] \<and> mreqs \<noteq> []
        \<and> (\<exists>resp. decoded mum mr = Some resp \<and> move_Errno resp = 0
              \<and> (\<exists>j < length (move_Info resp).
                    mi_Errno (move_Info resp ! j) \<noteq> 0 \<and> length mreqs \<le> j)))
   \<and> (RenameFiles rum rr c rreqs = Panics \<longleftrightarrow>
        accessToken c \<noteq> [] \<and> rreqs \<noteq> []
        \<and> (\<exists>resp. decoded rum rr = Some resp \<and> rename_Errno resp = 0
              \<and> (\<exists>j < length (rename_Info resp).
                    ri_Errno (rename_Info resp ! j) \<noteq> 0 \<and> length rreqs \<le> j)))
   \<and> (CopyFiles cum cr c creqs = Panics \<longleftrightarrow>
        accessToken c \<noteq> [] \<and> creqs \<noteq> []
        \<and> (\<exists>resp. decoded cum cr = Some resp \<and> copy_Errno resp = 0
              \<and> ((\<exists>j < length (copy_Info resp).
                     ci_Errno (copy_Info resp ! j) \<noteq> 0 \<and> length creqs \<le> j)
                  \<or> (\<forall>info \<in> set (copy_Info resp). ci_Errno info = 0)
                    \<and> length creqs < length (copy_Info resp))))"
proof -
  have m: "MoveFiles mum mr c mreqs = Panics \<longleftrightarrow>
        accessToken c \<noteq> [] \<and> mreqs \<noteq> []
        \<and> (\<exists>resp. decoded mum mr = Some resp \<and> move_Errno resp = 0
              \<and> (\<exists>j < length (move_Info resp).
                    mi_Errno (move_Info resp ! j) \<noteq> 0 \<and> length mreqs \<le> j))"
    by (simp add: MoveFiles_Panics_iff failedMoves_loop_Panics_iff)
  have r: "RenameFiles rum rr c rreqs = Panics \<longleftrightarrow>
        accessToken c \<noteq> [] \<and> rreqs \<noteq> []
        \<and> (\<exists>resp. decoded rum rr = Some resp \<and> rename_Errno resp = 0
              \<and> (\<exists>j < length (rename_Info resp).
                    ri_Errno (rename_Info resp ! j) \<noteq> 0 \<and> length rreqs \<le> j))"
    by (simp add: RenameFiles_Panics_iff failedRenames_loop_Panics_iff)
  have cp: "CopyFiles cum cr c creqs = Panics \<longleftrightarrow>
        accessToken c \<noteq> [] \<and> creqs \<noteq> []
        \<and> (\<exists>resp. decoded cum cr = Some resp \<and> copy_Errno resp = 0
              \<and> ((\<exists>j < length (copy_Info resp).
                     ci_Errno (copy_Info resp ! j) \<noteq> 0 \<and> length creqs \<le> j)
                  \<or> (\<forall>info \<in> set (copy_Info resp). ci_Errno info = 0)
                    \<and> length creqs < length (copy_Info resp)))"
    by (simp add: CopyFiles_Panics_iff failedCopies_loop_Panics_iff
        failedCopies_loop_Returns_Nil copied_loop_Panics_iff)
  have m1: "(\<forall>resp. decoded mum mr = Some resp \<longrightarrow> length (move_Info resp) \<le> length mreqs)
      \<longrightarrow> MoveFiles mum mr c mreqs \<noteq> Panics"
    unfolding m by fastforce
  have r1: "(\<forall>resp. decoded rum rr = Some resp \<longrightarrow> length (rename_Info resp) \<le> length rreqs)
      \<longrightarrow> RenameFiles rum rr c rreqs \<noteq> Panics"
    unfolding r by fastforce
  have c1: "(\<forall>resp. decoded cum cr = Some resp \<longrightarrow> length (copy_Info resp) \<le> length creqs)
      \<longrightarrow> CopyFiles cum cr c creqs \<noteq> Panics"
    unfolding cp by fastforce
  have ix: "length infos \<le> length reqs
      \<longrightarrow> (\<forall>i < length infos. index reqs i = Some (reqs ! i))"
    by (simp add: index_def)
  show ?thesis
    by (intro conjI) (fact m1 c1 r1 ix m r cp)+
qed

theorem batch_index_in_bounds_witness:
  "decoded sample_unmarshal_move (Reply 200 ''one moved'') = Some one_moved
   \<and> length (move_Info one_moved) \<le> length one_move
   \<and> MoveFiles sample_unmarshal_move (Reply 200 ''one moved'') sample_client one_move \<noteq> Panics
   \<and> decoded sample_unmarshal_move (Reply 200 ''stray failure'') = Some stray_failure
   \<and> length one_move < length (move_Info stray_failure)
   \<and> MoveFiles sample_unmarshal_move (Reply 200 ''stray failure'') sample_client one_move = Panics"
proof -
  have d1: "decoded sample_unmarshal_move (Reply 200 ''one moved'') = Some one_moved"
    and d2: "decoded sample_unmarshal_move (Reply 200 ''stray failure'') = Some stray_failure"
    by (simp_all add: decoded_def sample_unmarshal_move_def StatusOK_def)
  have l1: "length (move_Info one_moved) \<le> length one_move"
    and l2: "length one_move < length (move_Info stray_failure)"
    by (simp_all add: one_moved_def one_move_def stray_failure_def)
  have "\<forall>resp. decoded sample_unmarshal_move (Reply 200 ''one moved'') = Some resp
          \<longrightarrow> length (move_Info resp) \<le> length one_move"
    using d1 l1 by simp
  then have ok: "MoveFiles sample_unmarshal_move (Reply 200 ''one moved'') sample_client one_move
      \<noteq> Panics"
    using batch_index_in_bounds [THEN conjunct1, rule_format] by blast
  have "accessToken sample_client \<noteq> [] \<and> one_move \<noteq> []
        \<and> (\<exists>resp. decoded sample_unmarshal_move (Reply 200 ''stray failure'') = Some resp
              \<and> move_Errno resp = 0
              \<and> (\<exists>j < length (move_Info resp).
                    mi_Errno (move_Info resp ! j) \<noteq> 0 \<and> length one_move \<le> j))"
    unfolding d2
    by (simp add: sample_client_def one_move_def stray_failure_def) (rule exI [of _ 1], simp)
  then have bad: "MoveFiles sample_unmarshal_move (Reply 200 ''stray failure'') sample_client
      one_move = Panics"
    using batch_index_in_bounds [THEN conjunct2, THEN conjunct2, THEN conjunct2, THEN conjunct2,
        THEN conjunct1] by blast
  from d1 l1 ok d2 l2 bad show ?thesis by (intro conjI)
qed

section \<open>Properties of the filelist field of RemoveFiles\<close>

lemma fileListJSON_loop_later:
  "fileListJSON_loop (Suc i) paths acc =
     acc @ concat (map (\<lambda>path. '','' @ [CHR 0x22] @ path @ [CHR 0x22]) paths)"
  by (induction paths arbitrary: i acc) simp_all

lemma join_Cons: "join sep (x # xs) = x @ concat (map (\<lambda>y. sep @ y) xs)"
  by (induction xs arbitrary: x) simp_all

lemma fileListJSON_join:
  "fileListJSON filePaths =
     ''['' @ join '','' (map (\<lambda>path. [CHR 0x22] @ path @ [CHR 0x22]) filePaths) @ '']''"
proof (cases filePaths)
  case Nil
  then show ?thesis by (simp add: fileListJSON_def)
next
  case (Cons path rest)
  have "concat (map ((\<lambda>y. '','' @ y) \<circ> (\<lambda>path. [CHR 0x22] @ path @ [CHR 0x22])) rest)
      = concat (map (\<lambda>path. '','' @ [CHR 0x22] @ path @ [CHR 0x22]) rest)"
    by (simp add: comp_def)
  then show ?thesis
    using Cons by (simp add: fileListJSON_def fileListJSON_loop_later join_Cons)
qed

lemma json_escape_plain:
  "ch \<noteq> CHR 0x22 \<Longrightarrow> ch \<noteq> CHR 0x5C \<Longrightarrow> 32 \<le> (of_char ch :: nat) \<Longrightarrow> json_escape ch = [ch]"
  by (simp add: json_escape_def)

lemma json_string_plain:
  assumes "\<forall>ch \<in> set s. ch \<noteq> CHR 0x22 \<and> ch \<noteq> CHR 0x5C \<and> 32 \<le> (of_char ch :: nat)"
  shows "json_string s = [CHR 0x22] @ s @ [CHR 0x22]"
proof -
  have "concat (map json_escape s) = s"
    using assms by (induction s) (simp_all add: json_escape_plain)
  then show ?thesis by (simp add: json_string_def)
qed

text \<open>
  C10 (amended). For every list of paths in which no path contains a quotation mark,
  a reverse solidus or a control character (U+0000 to U+001F), the \<open>filelist\<close> field
  that \<open>RemoveFiles\<close> concatenates is exactly the JSON text of the array of the paths.
\<close>

theorem fileListJSON_is_json:
  assumes "\<forall>path \<in> set filePaths. \<forall>ch \<in> set path.
             ch \<noteq> CHR 0x22 \<and> ch \<noteq> CHR 0x5C \<and> 32 \<le> (of_char ch :: nat)"
  shows "fileListJSON filePaths = json_array filePaths"
proof -
  have eq: "map json_string filePaths = map (\<lambda>path. [CHR 0x22] @ path @ [CHR 0x22]) filePaths"
    using assms by (intro map_cong refl json_string_plain) simp
  show ?thesis
    unfolding json_array_def eq by (rule fileListJSON_join)
qed


text \<open>
  C10 (as stated, refuted). A path with a tab character holds no quotation mark and
  no reverse solidus, and the concatenated field is not the JSON text of the array:
  JSON escapes the tab, the concatenation does not.
\<close>

theorem fileListJSON_control_character_counterexample:
  "[tab_path] \<noteq> []
   \<and> CHR 0x22 \<notin> set tab_path \<and> CHR 0x5C \<notin> set tab_path
   \<and> fileListJSON [tab_path] \<noteq> json_array [tab_path]"
proof -
  have e: "json_escape (CHR 0x09) = [CHR 0x5C, CHR ''u'', CHR ''0'', CHR ''0'', CHR ''0'', CHR ''9'']"
    by (simp add: json_escape_def hex_digit_def)
  have p: "json_escape CHR ''/'' = ''/''" "json_escape CHR ''a'' = ''a''" "json_escape CHR ''b'' = ''b''"
    by (simp_all add: json_escape_def)
  have "fileListJSON [tab_path] \<noteq> json_array [tab_path]"
    by (simp add: tab_path_def fileListJSON_def json_array_def json_string_def e p)
  then show ?thesis by (simp add: tab_path_def)
qed


theorem fileListJSON_is_json_witness:
  "fileListJSON [''/docs/a.txt'', ''/docs/b c.txt''] = json_array [''/docs/a.txt'', ''/docs/b c.txt'']
   \<and> fileListJSON [''/docs/a.txt'', ''/docs/b c.txt'']
       = [CHR ''['', CHR 0x22] @ ''/docs/a.txt'' @ [CHR 0x22, CHR '','', CHR 0x22]
           @ ''/docs/b c.txt'' @ [CHR 0x22, CHR '']'']"
proof -
  have "\<forall>path \<in> set [''/docs/a.txt'', ''/docs/b c.txt'']. \<forall>ch \<in> set path.
             ch \<noteq> CHR 0x22 \<and> ch \<noteq> CHR 0x5C \<and> 32 \<le> (of_char ch :: nat)"
    by simp
  from fileListJSON_is_json [OF this]
  have 1: "fileListJSON [''/docs/a.txt'', ''/docs/b c.txt'']
             = json_array [''/docs/a.txt'', ''/docs/b c.txt'']" .
  have 2: "fileListJSON [''/docs/a.txt'', ''/docs/b c.txt'']
       = [CHR ''['', CHR 0x22] @ ''/docs/a.txt'' @ [CHR 0x22, CHR '','', CHR 0x22]
           @ ''/docs/b c.txt'' @ [CHR 0x22, CHR '']'']"
    by (simp add: fileListJSON_def)
  from 1 2 show ?thesis by (intro conjI)
qed

section \<open>Properties of UploadFile\<close>

lemma upload_slices_sent:
  "upload_slices env remote uploadID file is sent = (res, sent') \<Longrightarrow>
   \<exists>more. sent' = sent @ more \<and> (res = None \<longrightarrow> length more = length is)
         \<and> (\<forall>req \<in> set more. is_slice_request req)"
proof (induction "is" arbitrary: sent)
  case Nil
  then show ?case by simp
next
  case (Cons i rest)
  let ?req = "SliceUploadRequest remote uploadID i (take sliceSize (drop (i * sliceSize) file))"
  show ?case
  proof (cases "server env ?req")
    case DoError
    then show ?thesis using Cons.prems by (auto simp: Let_def is_slice_request_def)
  next
    case ReadAllError
    then show ?thesis using Cons.prems by (auto simp: Let_def is_slice_request_def)
  next
    case (Reply status body)
    show ?thesis
    proof (cases "status = StatusOK")
      case False
      then show ?thesis using Cons.prems Reply by (auto simp: Let_def is_slice_request_def)
    next
      case True
      then have "upload_slices env remote uploadID file rest (sent @ [?req]) = (res, sent')"
        using Cons.prems Reply by (simp add: Let_def)
      from Cons.IH [OF this] obtain more where
        "sent' = (sent @ [?req]) @ more" "res = None \<longrightarrow> length more = length rest"
        "\<forall>req \<in> set more. is_slice_request req" by blast
      then show ?thesis
        by (intro exI [of _ "?req # more"]) (simp add: is_slice_request_def)
    qed
  qed
qed

lemma UploadFile_precreate_first:
  assumes "UploadFile env c localFilePath remoteFilePath = (res, sent)" and "sent \<noteq> []"
  shows "\<exists>fileInfo sliceMD5s.
           accessToken c \<noteq> [] \<and> os_Stat env localFilePath = Some fileInfo
         \<and> \<not> st_IsDir fileInfo
         \<and> ensureRemoteDirExists env (filepath_Dir env remoteFilePath) = None
         \<and> calculateSliceMD5 env localFilePath (int sliceSize) = Inr sliceMD5s
         \<and> hd sent = PrecreateRequest remoteFilePath (st_Size fileInfo) sliceMD5s"
proof -
  have after: "after_precreate env l r sz md5s pr s0 = (res', s') \<Longrightarrow> s0 \<noteq> [] \<Longrightarrow> hd s' = hd s0"
    for l r sz md5s pr s0 res' s'
    by (auto simp: after_precreate_def create_file_def Let_def
        split: if_splits option.splits prod.splits http_reply.splits
        dest!: upload_slices_sent)
  show ?thesis
    using assms
    by (auto simp: UploadFile_def Let_def
        split: if_splits option.splits sum.splits http_reply.splits dest: after)
qed


text \<open>
  C5 (as stated, refuted). The precreate response carries \<open>return_type = 2\<close> and a
  non-zero \<open>errno\<close>: \<open>UploadFile\<close> checks \<open>errno\<close> first and returns an error, not
  success. (It has sent the precreate request only.)
\<close>

theorem UploadFile_refused_counterexample:
  "decoded sample_unmarshal_precreate
       (sample_server (PrecreateRequest ''/docs/refused.txt'' 5 [''h0''])) = Some refused_response
   \<and> pc_ReturnType refused_response = 2
   \<and> UploadFile sample_upload_env sample_client ''a.txt'' ''/docs/refused.txt''
       = (Some (ApiErrno (- 7)), [PrecreateRequest ''/docs/refused.txt'' 5 [''h0'']])"
  by (simp add: decoded_def sample_unmarshal_precreate_def sample_server_def refused_response_def
      UploadFile_def sample_upload_env_def sample_client_def StatusOK_def Let_def)

text \<open>For comparison, an upload that the server asks for: precreate, one slice,
  create.\<close>

lemma UploadFile_whole_run:
  "UploadFile sample_upload_env sample_client ''a.txt'' ''/docs/new.txt''
     = (None, [PrecreateRequest ''/docs/new.txt'' 5 [''h0''],
               SliceUploadRequest ''/docs/new.txt'' ''U1'' 0 [1, 2, 3, 4, 5],
               CreateFileRequest ''/docs/new.txt'' 5 ''U1'' [''h0'']])"
  by (simp add: UploadFile_def after_precreate_def create_file_def sample_upload_env_def
      sample_client_def sample_server_def sample_unmarshal_precreate_def upload_response_def
      sample_unmarshal_create_def StatusOK_def Let_def sliceSize_def)

text \<open>
  C5 (amended). In every upload that issues its precreate request and parses, from a
  reply with status 200, a response with \<open>errno\<close> zero and \<open>return_type = 2\<close>,
  \<open>UploadFile\<close> returns success and the precreate request is the only request it
  has issued: no slice transfer and no create.
\<close>

theorem UploadFile_already_present:
  assumes "UploadFile env c localFilePath remoteFilePath = (res, sent)"
    and "sent \<noteq> []"
    and "decoded (unmarshal_precreate env) (server env (hd sent)) = Some precreateResponse"
    and "pc_Errno precreateResponse = 0"
    and "pc_ReturnType precreateResponse = 2"
  shows "res = None \<and> is_precreate_request (hd sent) \<and> length sent = 1
       \<and> filter is_slice_request sent = [] \<and> filter is_create_request sent = []"
proof -
  from UploadFile_precreate_first [OF assms(1,2)] obtain fileInfo sliceMD5s where
    tok: "accessToken c \<noteq> []" and st: "os_Stat env localFilePath = Some fileInfo"
    and nd: "\<not> st_IsDir fileInfo"
    and en: "ensureRemoteDirExists env (filepath_Dir env remoteFilePath) = None"
    and md: "calculateSliceMD5 env localFilePath (int sliceSize) = Inr sliceMD5s"
    and hd: "hd sent = PrecreateRequest remoteFilePath (st_Size fileInfo) sliceMD5s"
    by blast
  let ?req = "PrecreateRequest remoteFilePath (st_Size fileInfo) sliceMD5s"
  from assms(3) hd obtain body where
    rep: "server env ?req = Reply StatusOK body"
    and um: "unmarshal_precreate env body = Some precreateResponse"
    by (auto simp: decoded_def split: http_reply.splits if_splits)
  have "UploadFile env c localFilePath remoteFilePath = (None, [?req])"
    using tok st nd en md rep um assms(4,5)
    by (simp add: UploadFile_def Let_def after_precreate_def)
  then have "res = None" and "sent = [?req]" using assms(1) by simp_all
  then show ?thesis
    by (simp add: is_precreate_request_def is_slice_request_def is_create_request_def)
qed

theorem UploadFile_already_present_witness:
  "UploadFile sample_upload_env sample_client ''a.txt'' ''/docs/present.txt''
     = (None, [PrecreateRequest ''/docs/present.txt'' 5 [''h0'']])
   \<and> decoded sample_unmarshal_precreate
         (sample_server (PrecreateRequest ''/docs/present.txt'' 5 [''h0''])) = Some present_response
   \<and> pc_Errno present_response = 0 \<and> pc_ReturnType present_response = 2
   \<and> filter is_slice_request [PrecreateRequest ''/docs/present.txt'' 5 [''h0'']] = []
   \<and> filter is_create_request [PrecreateRequest ''/docs/present.txt'' 5 [''h0'']] = []"
proof -
  let ?sent = "[PrecreateRequest ''/docs/present.txt'' 5 [''h0'']]"
  have run: "UploadFile sample_upload_env sample_client ''a.txt'' ''/docs/present.txt''
     = (None, ?sent)"
    by (simp add: UploadFile_def after_precreate_def sample_upload_env_def
      sample_client_def sample_server_def sample_unmarshal_precreate_def present_response_def
      StatusOK_def Let_def)
  have ne: "?sent \<noteq> []" by simp
  have dec: "decoded (unmarshal_precreate sample_upload_env)
                (server sample_upload_env (hd ?sent)) = Some present_response"
    by (simp add: decoded_def sample_upload_env_def sample_server_def
        sample_unmarshal_precreate_def StatusOK_def)
  have e: "pc_Errno present_response = 0" and t: "pc_ReturnType present_response = 2"
    by (simp_all add: present_response_def)
  from UploadFile_already_present [OF run ne dec e t]
  have f: "filter is_slice_request ?sent = []" "filter is_create_request ?sent = []"
    by blast+
  have dec': "decoded sample_unmarshal_precreate
         (sample_server (PrecreateRequest ''/docs/present.txt'' 5 [''h0''])) = Some present_response"
    using dec by (simp add: sample_upload_env_def)
  from run dec' e t f show ?thesis by (intro conjI)
qed

section \<open>Properties of Walk\<close>

lemma fold_max_ge: "a \<le> fold max xs (a :: nat)"
  by (induction xs arbitrary: a) (auto intro: order_trans [OF max.cobounded2])

lemma fold_max_mem: "x \<in> set xs \<Longrightarrow> x \<le> fold max xs (a :: nat)"
proof (induction xs arbitrary: a)
  case Nil
  then show ?case by simp
next
  case (Cons y ys)
  show ?case
  proof (cases "x = y")
    case True
    have "y \<le> max y a" by simp
    also have "\<dots> \<le> fold max ys (max y a)" by (rule fold_max_ge)
    finally show ?thesis using True by simp
  next
    case False
    then show ?thesis using Cons by simp
  qed
qed

lemma depth_child: "t \<in> set ts \<Longrightarrow> depth t < depth (DDir f ts)"
  using fold_max_mem [of "depth t" "map depth ts" 0] by (simp add: less_Suc_eq_le)














end
